theory Spec2Isabelle
  imports Main "HOL-Library.Sublist" "HOL-Library.AList"
begin

section \<open>The hosted plugin manager (hosted-plugin-manager.ts)\<close>

text \<open>
  The manager launches a second Theia instance as a child process, waits for its readiness
  line, post-processes and probes the endpoint, and terminates the process tree later.
  The embedding is a state-passing one: the object's fields are a record, the module-level
  state (the \<open>PROCESS_OPTIONS\<close> constant, the environment objects it refers to and the log of
  calls made to the platform) is a second record, and whatever the platform answers (socket
  probes, child-process events, HTTP responses, the process table) is an argument.
  A promise is the value it settles to, or \<open>Pending\<close> when it never settles.
\<close>

subsection \<open>Data\<close>

text \<open>The fields of the URI class (\<open>@theia/core/lib/common/uri\<close>) that the manager reads.\<close>

record uri =
  scheme :: string
  authority :: string
  path :: string
  query :: string
  fragment :: string

text \<open>
  A port is a JavaScript number. Integral values and \<open>NaN\<close> (what \<open>Number\<close> gives for text
  that is no numeral) are modelled; fractional values and the infinities are not.
\<close>

datatype jsnumber = Num int | NaN

fun js_lt :: "jsnumber \<Rightarrow> jsnumber \<Rightarrow> bool" where
  "js_lt (Num a) (Num b) = (a < b)"
| "js_lt _ _ = False"

definition js_gt :: "jsnumber \<Rightarrow> jsnumber \<Rightarrow> bool" where
  "js_gt a b = js_lt b a"

text \<open>Truthiness of an optional number argument (\<open>undefined\<close>, \<open>0\<close> and \<open>NaN\<close> are falsy).\<close>

fun truthy_number :: "jsnumber option \<Rightarrow> bool" where
  "truthy_number None = False"
| "truthy_number (Some NaN) = False"
| "truthy_number (Some (Num n)) = (n \<noteq> 0)"

fun digits_of :: "nat \<Rightarrow> string" where
  "digits_of n =
     (if n < 10 then [''0123456789'' ! n]
      else digits_of (n div 10) @ [''0123456789'' ! (n mod 10)])"

declare digits_of.simps [simp del]

text \<open>String concatenation with a number, as in \<open>'--port=' + port\<close>.\<close>

fun number_to_string :: "jsnumber \<Rightarrow> string" where
  "number_to_string NaN = ''NaN''"
| "number_to_string (Num n) =
     (if n < 0 then CHR ''-'' # digits_of (nat (- n)) else digits_of (nat n))"

text \<open>
  The errors the manager throws, one constructor per message:
  \<open>'Hosted plugin instance is already running.'\<close>, \<open>'Not supported plugin location: ' + uri\<close>,
  \<open>'Port value is incorrect.'\<close>, \<open>'Port ' + port + ' is already in use.'\<close>, the rejection
  value \<open>'Timeout.'\<close>, \<open>'Cannot reach ' + uri\<close>, \<open>'Hosted plugin instance is not running.'\<close>,
  and the TypeError of a property read on \<open>undefined\<close> or \<open>null\<close>, and the error \<open>require\<close>
  throws for a file it cannot load.
\<close>

datatype error =
    AlreadyRunning
  | NotSupportedLocation uri
  | PortIncorrect
  | PortInUse jsnumber
  | Timeout
  | CannotReach uri
  | NotRunning
  | TypeError
  | RequireError

datatype 'a promise = Resolved 'a | Rejected error | Pending

type_synonym env = "(string \<times> string) list"

text \<open>
  An options object (\<open>cp.SpawnOptions\<close>): \<open>env\<close> holds a reference to an environment
  object, which lives in the store of the module state.
\<close>

record spawn_options =
  cwd :: string
  env :: nat

datatype argv = Lit string | PidArg nat

text \<open>One entry of the process table, as the process-tree enumerator reports it.\<close>

record proc =
  PID :: nat
  PPID :: nat

text \<open>Calls made to the platform, in the order they are made.\<close>

datatype effect =
    Listen jsnumber string
  | CloseServer jsnumber
  | Delay nat
  | Spawn string "string list" spawn_options env
  | SetTimeout nat
  | RemoveDataListener nat
  | ChildKill nat
  | HttpGet uri
  | ProcessTree nat
  | SpawnSync string "argv list"

text \<open>
  The module-level state: the constant \<open>PROCESS_OPTIONS\<close>, the environment objects by
  reference (\<open>process.env\<close> is object \<open>0\<close>), and the log of platform calls.
\<close>

record module_state =
  PROCESS_OPTIONS :: spawn_options
  store :: "nat \<Rightarrow> env"
  effects :: "effect list"

definition process_env :: "module_state \<Rightarrow> env" where
  "process_env w = store w 0"

definition emit :: "effect \<Rightarrow> module_state \<Rightarrow> module_state" where
  "emit e w = w\<lparr>effects := effects w @ [e]\<rparr>"

definition env_set :: "nat \<Rightarrow> string \<Rightarrow> string \<Rightarrow> module_state \<Rightarrow> module_state" where
  "env_set a k v w = w\<lparr>store := (store w)(a := AList.update k v (store w a))\<rparr>"

text \<open>
  Lines 60 to 64: \<open>PROCESS_OPTIONS\<close> gets a fresh copy of \<open>process.env\<close> (object \<open>1\<close>),
  from which \<open>ELECTRON_RUN_AS_NODE\<close> is deleted.
\<close>

definition load_module :: "string \<Rightarrow> env \<Rightarrow> module_state" where
  "load_module dir penv =
     \<lparr>PROCESS_OPTIONS = \<lparr>cwd = dir, env = 1\<rparr>,
      store = (\<lambda>_. [])(0 := penv, 1 := AList.delete ''ELECTRON_RUN_AS_NODE'' penv),
      effects = []\<rparr>"

definition HOSTED_INSTANCE_START_TIMEOUT_MS :: nat where
  "HOSTED_INSTANCE_START_TIMEOUT_MS = 30000"

text \<open>The fields of \<open>AbstractHostedPluginManager\<close>; \<open>None\<close> is \<open>undefined\<close>.\<close>

record manager =
  hostedInstanceProcess :: "nat option"
  isInstanceRunnig :: bool
  port :: "jsnumber option"
  instanceUri :: "uri option"

definition new_manager :: manager where
  "new_manager =
     \<lparr>hostedInstanceProcess = None, isInstanceRunnig = False, port = None, instanceUri = None\<rparr>"

text \<open>
  The two concrete classes. \<open>NodeHostedPluginRunner\<close> holds the contributed URI
  post-processors in registration order; each receives a URI and returns one.
\<close>

datatype runner =
    NodeHostedPluginRunner "(uri \<Rightarrow> uri) list"
  | ElectronNodeHostedPluginRunner

subsection \<open>The readiness pattern\<close>

text \<open>
  \<open>THEIA_INSTANCE_REGEX = /.*Theia app listening on (.*)\. \[\].*/\<close>. A dot does not match a
  line terminator (of these, line feed and carriage return are modelled), so a match lies
  within one line of the chunk, and the search takes the first line that has one. Both stars are greedy: the first one gives up characters from the
  right until the literal text follows and the rest of the pattern matches, so the last
  such position wins; the group then extends to the last \<open>. []\<close> of the line.
\<close>

definition is_line_terminator :: "char \<Rightarrow> bool" where
  "is_line_terminator c \<longleftrightarrow> c = CHR 0x0A \<or> c = CHR 0x0D"

fun split_lines :: "string \<Rightarrow> string list" where
  "split_lines [] = [[]]"
| "split_lines (c # cs) =
     (if is_line_terminator c then [] # split_lines cs
      else (case split_lines cs of l # ls \<Rightarrow> (c # l) # ls | [] \<Rightarrow> [[c]]))"

text \<open>The text before the last occurrence of \<open>pat\<close> in the string, if there is one.\<close>

fun before_last :: "string \<Rightarrow> string \<Rightarrow> string option" where
  "before_last pat [] = (if pat = [] then Some [] else None)"
| "before_last pat (c # cs) =
     (case before_last pat cs of
        Some pre \<Rightarrow> Some (c # pre)
      | None \<Rightarrow> if prefix pat (c # cs) then Some [] else None)"

fun match_line :: "string \<Rightarrow> string option" where
  "match_line [] = None"
| "match_line (c # cs) =
     (case match_line cs of
        Some g \<Rightarrow> Some g
      | None \<Rightarrow>
          if prefix ''Theia app listening on '' (c # cs)
          then before_last ''. []'' (drop (length ''Theia app listening on '') (c # cs))
          else None)"

fun first_match :: "string list \<Rightarrow> string option" where
  "first_match [] = None"
| "first_match (l # ls) =
     (case match_line l of Some g \<Rightarrow> Some g | None \<Rightarrow> first_match ls)"

text \<open>\<open>THEIA_INSTANCE_REGEX.exec(line)\<close>; the result is \<open>match[1]\<close>, \<open>None\<close> is \<open>null\<close>.\<close>

definition THEIA_INSTANCE_REGEX_exec :: "string \<Rightarrow> string option" where
  "THEIA_INSTANCE_REGEX_exec line = first_match (split_lines line)"

subsection \<open>What the platform answers\<close>

text \<open>Events of the child process, in the order their handlers run.\<close>

datatype child_event = StdoutData string | ProcError | ProcExit

text \<open>
  Everything one call of \<open>run\<close> gets from outside: the conversions \<open>Number(text)\<close> and
  \<open>new URI(text)\<close>; whether the \<open>n\<close>-th socket probe of the call finds the port free; the pid
  of the spawned child; the child's events handled before the start timer fires; for the
  pause after the \<open>i\<close>-th HTTP request, the child's events handled during it and whether a
  response callback has run by its end; and whether a response arrives after the last pause.
\<close>

record script =
  to_number :: "string \<Rightarrow> jsnumber"
  new_URI :: "string \<Rightarrow> uri"
  port_free :: "nat \<Rightarrow> bool"
  child_pid :: nat
  startup :: "child_event list"
  probe_events :: "nat \<Rightarrow> child_event list"
  responded :: "nat \<Rightarrow> bool"
  late_response :: bool

subsection \<open>Operations\<close>

definition isRunning :: "manager \<Rightarrow> bool" where
  "isRunning m = isInstanceRunnig m"

text \<open>Lines 195 and 196: the handlers of the child's \<open>error\<close> and \<open>exit\<close> events.\<close>

definition on_error :: "manager \<Rightarrow> manager" where
  "on_error m = m\<lparr>isInstanceRunnig := False\<rparr>"

definition on_exit :: "manager \<Rightarrow> manager" where
  "on_exit m = m\<lparr>isInstanceRunnig := False\<rparr>"

text \<open>A child event handled once the start promise is settled: output is no longer read.\<close>

fun lifecycle_event :: "child_event \<Rightarrow> manager \<Rightarrow> manager" where
  "lifecycle_event (StdoutData d) m = m"
| "lifecycle_event ProcError m = on_error m"
| "lifecycle_event ProcExit m = on_exit m"

text \<open>
  \<open>isPortFree\<close>: a server is asked to listen on the port on all interfaces; \<open>answer\<close> says
  whether its \<open>listening\<close> event comes (then the server is closed) or its \<open>error\<close> event.
\<close>

definition isPortFree :: "jsnumber \<Rightarrow> bool \<Rightarrow> module_state \<Rightarrow> bool \<times> module_state" where
  "isPortFree p answer w =
     (let w1 = emit (Listen p ''0.0.0.0'') w
      in if answer then (True, emit (CloseServer p) w1) else (False, w1))"

definition validatePort ::
  "jsnumber \<Rightarrow> (nat \<Rightarrow> bool) \<Rightarrow> module_state \<Rightarrow> (error + unit) \<times> module_state" where
  "validatePort p free w =
     (if js_lt p (Num 1) \<or> js_gt p (Num 65535) then (Inl PortIncorrect, w)
      else
        (case isPortFree p (free 0) w of
           (True, w1) \<Rightarrow> (Inr (), w1)
         | (False, w1) \<Rightarrow>
             (case isPortFree p (free 1) (emit (Delay 1000) w1) of
                (True, w2) \<Rightarrow> (Inr (), w2)
              | (False, w2) \<Rightarrow> (Inl (PortInUse p), w2))))"

text \<open>\<open>AbstractHostedPluginManager.getStartCommand\<close> (lines 163 to 174).\<close>

definition getStartCommand_base ::
  "script \<Rightarrow> jsnumber option \<Rightarrow> manager \<Rightarrow> module_state \<Rightarrow>
     (error + string list) \<times> manager \<times> module_state" where
  "getStartCommand_base sc p m w =
     (let command = [''yarn'', ''theia'', ''start''];
          hostname = map_of (process_env w) ''HOSTED_PLUGIN_HOSTNAME'';
          command = (case hostname of
                       None \<Rightarrow> command
                     | Some h \<Rightarrow> if h \<noteq> [] then command @ [''--hostname='' @ h] else command)
      in if truthy_number p then
           (case p of
              None \<Rightarrow> (Inr command, m, w)
            | Some n \<Rightarrow>
                (case validatePort n (port_free sc) w of
                   (Inl e, w') \<Rightarrow> (Inl e, m, w')
                 | (Inr _, w') \<Rightarrow>
                     (Inr (command @ [''--port='' @ number_to_string n]),
                      m\<lparr>port := Some n\<rparr>, w')))
         else (Inr command, m, w))"

text \<open>The override in \<open>NodeHostedPluginRunner\<close> (lines 250 to 259) and the dispatch.\<close>

fun getStartCommand ::
  "runner \<Rightarrow> script \<Rightarrow> jsnumber option \<Rightarrow> manager \<Rightarrow> module_state \<Rightarrow>
     (error + string list) \<times> manager \<times> module_state" where
  "getStartCommand (NodeHostedPluginRunner ps) sc p m w =
     (let p = (if \<not> truthy_number p then
                 (case map_of (process_env w) ''HOSTED_PLUGIN_PORT'' of
                    None \<Rightarrow> Some (Num 3030)
                  | Some v \<Rightarrow> if v \<noteq> [] then Some (to_number sc v) else Some (Num 3030))
               else p)
      in getStartCommand_base sc p m w)"
| "getStartCommand ElectronNodeHostedPluginRunner sc p m w = getStartCommand_base sc p m w"

text \<open>
  \<open>postProcessInstanceUri\<close>: the identity in the abstract class, the loop over the
  contributions in \<open>NodeHostedPluginRunner\<close> (lines 243 to 248).
\<close>

fun process_all :: "(uri \<Rightarrow> uri) list \<Rightarrow> uri \<Rightarrow> uri" where
  "process_all [] u = u"
| "process_all (uriPostProcessor # rest) u = process_all rest (uriPostProcessor u)"

fun postProcessInstanceUri :: "runner \<Rightarrow> uri \<Rightarrow> uri" where
  "postProcessInstanceUri (NodeHostedPluginRunner ps) u = process_all ps u"
| "postProcessInstanceUri ElectronNodeHostedPluginRunner u = u"

text \<open>
  The promise of \<open>runHostedPluginTheiaInstance\<close> while it is pending. Each event runs its
  handler; output that matches resolves the promise with the captured text as a URI. When
  the events before the timer are used up, the timer's callback runs with \<open>started\<close> false:
  it kills the child, clears the flag and rejects. A handler that reads
  \<open>this.hostedInstanceProcess\<close> when it is undefined throws, and the promise stays pending.
\<close>

fun await_startup ::
  "(string \<Rightarrow> uri) \<Rightarrow> child_event list \<Rightarrow> manager \<Rightarrow> module_state \<Rightarrow>
     uri promise \<times> manager \<times> module_state" where
  "await_startup mk [] m w =
     (case hostedInstanceProcess m of
        None \<Rightarrow> (Pending, m, w)
      | Some child \<Rightarrow>
          (Rejected Timeout, m\<lparr>isInstanceRunnig := False\<rparr>, emit (ChildKill child) w))"
| "await_startup mk (StdoutData d # evs) m w =
     (case THEIA_INSTANCE_REGEX_exec d of
        Some g \<Rightarrow>
          (case hostedInstanceProcess m of
             None \<Rightarrow> (Pending, m, w)
           | Some child \<Rightarrow> (Resolved (mk g), m, emit (RemoveDataListener child) w))
      | None \<Rightarrow> await_startup mk evs m w)"
| "await_startup mk (ProcError # evs) m w = await_startup mk evs (on_error m) w"
| "await_startup mk (ProcExit # evs) m w = await_startup mk evs (on_exit m) w"

definition runHostedPluginTheiaInstance ::
  "script \<Rightarrow> string list \<Rightarrow> spawn_options \<Rightarrow> manager \<Rightarrow> module_state \<Rightarrow>
     uri promise \<times> manager \<times> module_state" where
  "runHostedPluginTheiaInstance sc command options m w =
     (let m1 = m\<lparr>isInstanceRunnig := True\<rparr>
      in case command of
           [] \<Rightarrow> (Rejected TypeError, m1, w)
         | cmd # args \<Rightarrow>
             (let w1 = emit (Spawn cmd args options (store w (env options))) w;
                  m2 = m1\<lparr>hostedInstanceProcess := Some (child_pid sc)\<rparr>;
                  w2 = emit (SetTimeout HOSTED_INSTANCE_START_TIMEOUT_MS) w1
              in await_startup (new_URI sc) (startup sc) m2 w2))"

text \<open>
  The loop of \<open>ensureUriAvailable\<close> (lines 115 to 123) issues a request and pauses
  (lines 120 to 122; the pause is skipped when \<open>isReady\<close> is set). A response callback
  cannot run before the loop reaches its \<open>await\<close>, so \<open>isReady\<close> can only change during a
  pause; the child's events of that time are handled then as well.
\<close>

definition pause_unless_ready ::
  "script \<Rightarrow> nat \<Rightarrow> bool \<Rightarrow> manager \<Rightarrow> module_state \<Rightarrow> bool \<times> manager \<times> module_state" where
  "pause_unless_ready sc i isReady m w =
     (if \<not> isReady then
        (responded sc i, fold lifecycle_event (probe_events sc i) m, emit (Delay 1000) w)
      else (isReady, m, w))"

function ensure_loop ::
  "script \<Rightarrow> uri \<Rightarrow> nat \<Rightarrow> bool \<Rightarrow> manager \<Rightarrow> module_state \<Rightarrow> bool \<times> manager \<times> module_state" where
  "ensure_loop sc u i isReady m w =
     (if i < 10 \<and> \<not> isReady then
        (case pause_unless_ready sc i isReady m (emit (HttpGet u) w) of
           (isReady', m', w') \<Rightarrow> ensure_loop sc u (i + 1) isReady' m' w')
      else (isReady, m, w))"
  by pat_completeness auto
termination
  by (relation "measure (\<lambda>(sc, u, i, isReady, m, w). 10 - i)") auto

declare ensure_loop.simps [simp del]

text \<open>
  The executor of the promise is an async function: what it throws after the loop rejects
  the executor's own promise, which nobody holds. The promise \<open>ensureUriAvailable\<close> returns
  is settled by \<open>resolve\<close> alone, called from a response callback.
\<close>

definition ensure_executor ::
  "script \<Rightarrow> uri \<Rightarrow> manager \<Rightarrow> module_state \<Rightarrow> (error + unit) \<times> bool \<times> manager \<times> module_state" where
  "ensure_executor sc u m w =
     (case ensure_loop sc u 0 False m w of
        (isReady, m', w') \<Rightarrow>
          (if \<not> isReady then Inl (CannotReach u) else Inr (), isReady, m', w'))"

definition ensureUriAvailable ::
  "script \<Rightarrow> uri \<Rightarrow> manager \<Rightarrow> module_state \<Rightarrow> unit promise \<times> manager \<times> module_state" where
  "ensureUriAvailable sc u m w =
     (case ensure_executor sc u m w of
        (thrown, isReady, m', w') \<Rightarrow>
          (if isReady \<or> late_response sc then Resolved () else Pending, m', w'))"

text \<open>\<open>run\<close> (lines 82 to 104). The options copy is shallow: it holds the same \<open>env\<close> reference.\<close>

definition run ::
  "runner \<Rightarrow> script \<Rightarrow> uri \<Rightarrow> jsnumber option \<Rightarrow> manager \<Rightarrow> module_state \<Rightarrow>
     uri option promise \<times> manager \<times> module_state" where
  "run r sc pluginUri p m w =
     (if isInstanceRunnig m then (Rejected AlreadyRunning, m, w)
      else if scheme pluginUri = ''file'' then
        (let processOptions = PROCESS_OPTIONS w;
             w1 = env_set (env processOptions) ''HOSTED_PLUGIN'' (path pluginUri) w;
             w2 = env_set (env processOptions) ''THEIA_PLUGINS'' [] w1
         in case getStartCommand r sc p m w2 of
              (Inl e, m1, w3) \<Rightarrow> (Rejected e, m1, w3)
            | (Inr command, m1, w3) \<Rightarrow>
                (case runHostedPluginTheiaInstance sc command processOptions m1 w3 of
                   (Rejected e, m2, w4) \<Rightarrow> (Rejected e, m2, w4)
                 | (Pending, m2, w4) \<Rightarrow> (Pending, m2, w4)
                 | (Resolved u, m2, w4) \<Rightarrow>
                     (let m3 = m2\<lparr>instanceUri := Some (postProcessInstanceUri r u)\<rparr>
                      in case ensureUriAvailable sc (postProcessInstanceUri r u) m3 w4 of
                           (Rejected e, m4, w5) \<Rightarrow> (Rejected e, m4, w5)
                         | (Pending, m4, w5) \<Rightarrow> (Pending, m4, w5)
                         | (Resolved _, m4, w5) \<Rightarrow> (Resolved (instanceUri m4), m4, w5))))
      else (Rejected (NotSupportedLocation pluginUri), m, w))"

text \<open>
  The state in which \<open>run\<close> waits for the child: lines 83 to 99 of \<open>run\<close> and the
  synchronous part of the executor in \<open>runHostedPluginTheiaInstance\<close> (lines 181 to 204),
  which sets the flag, spawns the child, installs the listeners and sets the start timer.
  From here the caller of \<open>run\<close> gets control back until the child writes, fails or exits,
  or the timer fires; \<open>instanceUri\<close> is assigned only afterwards (line 100). \<open>None\<close> when
  \<open>run\<close> throws before it spawns.
\<close>

definition starting ::
  "runner \<Rightarrow> script \<Rightarrow> uri \<Rightarrow> jsnumber option \<Rightarrow> manager \<Rightarrow> module_state \<Rightarrow>
     (manager \<times> module_state) option" where
  "starting r sc pluginUri p m w =
     (if isInstanceRunnig m then None
      else if scheme pluginUri = ''file'' then
        (let processOptions = PROCESS_OPTIONS w;
             w1 = env_set (env processOptions) ''HOSTED_PLUGIN'' (path pluginUri) w;
             w2 = env_set (env processOptions) ''THEIA_PLUGINS'' [] w1
         in case getStartCommand r sc p m w2 of
              (Inl e, m1, w3) \<Rightarrow> None
            | (Inr command, m1, w3) \<Rightarrow>
                (case command of
                   [] \<Rightarrow> None
                 | cmd # args \<Rightarrow>
                     Some (m1\<lparr>isInstanceRunnig := True,
                              hostedInstanceProcess := Some (child_pid sc)\<rparr>,
                           emit (SetTimeout HOSTED_INSTANCE_START_TIMEOUT_MS)
                             (emit (Spawn cmd args processOptions (store w3 (env processOptions)))
                                w3))))
      else None)"


text \<open>
  \<open>terminate\<close> (lines 131 to 142). \<open>processTree\<close> is what the enumerator (\<open>ps-tree\<close>) hands
  to the callback for a pid. The failure when not running is thrown by the call itself;
  otherwise a promise is returned.
\<close>

definition terminate ::
  "(nat \<Rightarrow> proc list) \<Rightarrow> manager \<Rightarrow> module_state \<Rightarrow>
     (error + unit promise) \<times> manager \<times> module_state" where
  "terminate processTree m w =
     (if isInstanceRunnig m then
        (case hostedInstanceProcess m of
           None \<Rightarrow> (Inr (Rejected TypeError), m, w)
         | Some child \<Rightarrow>
             (let w1 = emit (ProcessTree child) w;
                  children = processTree child;
                  w2 = emit (SpawnSync ''kill'' ([Lit ''SIGTERM''] @ map (\<lambda>p. PidArg (PID p)) children)) w1
              in (Inr (Resolved ()), m, w2)))
      else (Inl NotRunning, m, w))"


subsection \<open>Plugin manifests\<close>

datatype json =
    JNull
  | JBool bool
  | JNum int
  | JStr string
  | JArr "json list"
  | JObj "(string \<times> json) list"

text \<open>
  What \<open>require\<close> finds at a path that exists: a document that parses, or something it
  cannot load (malformed text, a directory).
\<close>

datatype file_content = Manifest json | Unloadable

text \<open>
  \<open>value[key]\<close> for the keys the manager reads (none of them is defined on a prototype):
  a TypeError on \<open>null\<close>, \<open>undefined\<close> on the other primitives and on arrays, and the
  member of an object, the last one when the key is repeated.
\<close>

fun get_property :: "json \<Rightarrow> string \<Rightarrow> error + json option" where
  "get_property JNull k = Inl TypeError"
| "get_property (JObj members) k = Inr (map_of (rev members) k)"
| "get_property _ k = Inr None"

fun truthy :: "json option \<Rightarrow> bool" where
  "truthy None = False"
| "truthy (Some JNull) = False"
| "truthy (Some (JBool b)) = b"
| "truthy (Some (JNum n)) = (n \<noteq> 0)"
| "truthy (Some (JStr s)) = (s \<noteq> [])"
| "truthy (Some (JArr xs)) = True"
| "truthy (Some (JObj members)) = True"

text \<open>
  \<open>require\<close> of Node, as line 154 uses it, for an absolute path: the module cache is
  keyed by the path and is consulted first, so a path that was loaded once answers with the
  exports kept from that load, whatever the file holds by now. A path not in the cache is
  read from the file system; a document that parses is stored in the cache and returned,
  and a failed load throws and leaves the cache as it was. The cache lives as long as the
  process, so it is passed in and returned.
\<close>

definition require ::
  "(string \<rightharpoonup> file_content) \<Rightarrow> (string \<rightharpoonup> json) \<Rightarrow> string \<Rightarrow>
     (error + json) \<times> (string \<rightharpoonup> json)" where
  "require files cache p =
     (case cache p of
        Some exports \<Rightarrow> (Inr exports, cache)
      | None \<Rightarrow>
          (case files p of
             None \<Rightarrow> (Inl RequireError, cache)
           | Some Unloadable \<Rightarrow> (Inl RequireError, cache)
           | Some (Manifest exports) \<Rightarrow> (Inr exports, cache(p \<mapsto> exports))))"

text \<open>
  \<open>isPluginValid\<close> (lines 151 to 161); \<open>files\<close> is the file system, read only, and
  \<open>cache\<close> the module cache of \<open>require\<close>. \<open>fs.existsSync\<close> looks at the file system,
  not at the cache. In \<open>plugin && (plugin['frontend'] || plugin['backend'])\<close> the
  properties of a truthy \<open>plugin\<close> are read, \<open>backend\<close> only when \<open>frontend\<close> is falsy.
\<close>

definition isPluginValid ::
  "(string \<rightharpoonup> file_content) \<Rightarrow> (string \<rightharpoonup> json) \<Rightarrow> uri \<Rightarrow>
     (error + bool) \<times> (string \<rightharpoonup> json)" where
  "isPluginValid files cache u =
     (let packageJsonPath = path u @ ''/package.json''
      in case files packageJsonPath of
           None \<Rightarrow> (Inr False, cache)
         | Some f \<Rightarrow>
             (case require files cache packageJsonPath of
                (Inl e, cache') \<Rightarrow> (Inl e, cache')
              | (Inr packageJson, cache') \<Rightarrow>
                  (case get_property packageJson ''theiaPlugin'' of
                     Inl e \<Rightarrow> (Inl e, cache')
                   | Inr None \<Rightarrow> (Inr False, cache')
                   | Inr (Some plugin) \<Rightarrow>
                       if \<not> truthy (Some plugin) then (Inr False, cache')
                       else
                         (case get_property plugin ''frontend'' of
                            Inl e \<Rightarrow> (Inl e, cache')
                          | Inr frontend \<Rightarrow>
                              if truthy frontend then (Inr True, cache')
                              else
                                (case get_property plugin ''backend'' of
                                   Inl e \<Rightarrow> (Inl e, cache')
                                 | Inr backend \<Rightarrow> (Inr (truthy backend), cache'))))))"


section \<open>Notions used to state the properties\<close>

text \<open>A log entry that starts a child process, and whether a call added one to the log.\<close>

fun is_spawn :: "effect \<Rightarrow> bool" where
  "is_spawn (Spawn cmd args opts e) = True"
| "is_spawn _ = False"

definition spawned :: "module_state \<Rightarrow> module_state \<Rightarrow> bool" where
  "spawned w w' = list_ex is_spawn (drop (length (effects w)) (effects w'))"

text \<open>The environments handed to the child processes started so far, oldest first.\<close>

fun spawn_envs :: "effect list \<Rightarrow> env list" where
  "spawn_envs [] = []"
| "spawn_envs (Spawn cmd args opts e # es) = e # spawn_envs es"
| "spawn_envs (x # es) = spawn_envs es"

fun is_output :: "child_event \<Rightarrow> bool" where
  "is_output (StdoutData d) = True"
| "is_output _ = False"

text \<open>The address captured from the first chunk of output that matches the readiness pattern.\<close>

fun readiness_uri :: "child_event list \<Rightarrow> string option" where
  "readiness_uri [] = None"
| "readiness_uri (StdoutData d # evs) =
     (case THEIA_INSTANCE_REGEX_exec d of Some g \<Rightarrow> Some g | None \<Rightarrow> readiness_uri evs)"
| "readiness_uri (ev # evs) = readiness_uri evs"

text \<open>Everything the child writes to its output, chunk after chunk.\<close>

fun stdout_of :: "child_event list \<Rightarrow> string" where
  "stdout_of [] = []"
| "stdout_of (StdoutData d # evs) = d @ stdout_of evs"
| "stdout_of (ev # evs) = stdout_of evs"

text \<open>A run during which the child neither exits nor reports an error.\<close>

definition quiet :: "script \<Rightarrow> bool" where
  "quiet sc \<longleftrightarrow>
     list_all is_output (startup sc) \<and>
     list_all (\<lambda>i. list_all is_output (probe_events sc i)) [0..<10]"

text \<open>The environment object after the writes of lines 91 and 94, and the module after them.\<close>

definition launch_env :: "uri \<Rightarrow> env \<Rightarrow> env" where
  "launch_env pluginUri e =
     AList.update ''THEIA_PLUGINS'' [] (AList.update ''HOSTED_PLUGIN'' (path pluginUri) e)"

definition written :: "uri \<Rightarrow> module_state \<Rightarrow> module_state" where
  "written pluginUri w =
     env_set (env (PROCESS_OPTIONS w)) ''THEIA_PLUGINS'' []
       (env_set (env (PROCESS_OPTIONS w)) ''HOSTED_PLUGIN'' (path pluginUri) w)"

text \<open>
  The manifest as the specification speaks of it: the member of a JSON object (nothing for
  any other value), whether an object has an entry under a key, whatever its value, and
  whether the document's contribution object (\<open>theiaPlugin\<close>) has a \<open>frontend\<close> or a
  \<open>backend\<close> entry.
\<close>

definition member_of :: "json \<Rightarrow> string \<Rightarrow> json option" where
  "member_of j k = (case j of JObj members \<Rightarrow> map_of (rev members) k | _ \<Rightarrow> None)"

definition has_entry :: "json \<Rightarrow> string \<Rightarrow> bool" where
  "has_entry j k = (case j of JObj members \<Rightarrow> k \<in> fst ` set members | _ \<Rightarrow> False)"

definition declares_contribution :: "json \<Rightarrow> bool" where
  "declares_contribution packageJson =
     (case member_of packageJson ''theiaPlugin'' of
        None \<Rightarrow> False
      | Some plugin \<Rightarrow> has_entry plugin ''frontend'' \<or> has_entry plugin ''backend'')"

text \<open>
  The document \<open>require\<close> returns for a path: the one in the module cache when the path was
  loaded before, the one in the file otherwise.
\<close>

definition loaded_document ::
  "(string \<rightharpoonup> file_content) \<Rightarrow> (string \<rightharpoonup> json) \<Rightarrow> string \<Rightarrow> json option" where
  "loaded_document files cache p =
     (case cache p of
        Some exports \<Rightarrow> Some exports
      | None \<Rightarrow> (case files p of Some (Manifest exports) \<Rightarrow> Some exports | _ \<Rightarrow> None))"


section \<open>Example inputs\<close>

definition example_location :: uri where
  "example_location =
     \<lparr>scheme = ''file'', authority = [], path = ''/home/user/plugin'', query = [], fragment = []\<rparr>"

definition other_location :: uri where
  "other_location =
     \<lparr>scheme = ''file'', authority = [], path = ''/home/user/other'', query = [], fragment = []\<rparr>"

text \<open>The module as loaded in a process started under Electron.\<close>

definition example_process_env :: env where
  "example_process_env = [(''HOME'', ''/root''), (''ELECTRON_RUN_AS_NODE'', ''1'')]"

definition fresh_module :: module_state where
  "fresh_module = load_module ''/'' example_process_env"

text \<open>A stand-in for \<open>new URI(text)\<close>: scheme and authority of an address without a path.\<close>

definition example_new_URI :: "string \<Rightarrow> uri" where
  "example_new_URI s =
     \<lparr>scheme = takeWhile (\<lambda>c. c \<noteq> CHR '':'') s,
      authority = drop 3 (dropWhile (\<lambda>c. c \<noteq> CHR '':'') s),
      path = [], query = [], fragment = []\<rparr>"

definition example_endpoint :: uri where
  "example_endpoint =
     \<lparr>scheme = ''http'', authority = ''localhost:3030'', path = [], query = [], fragment = []\<rparr>"

text \<open>
  A launch that goes well: the port is free, the child (pid 4242) prints the readiness line,
  stays alive, and the first request is answered during the pause that follows it.
\<close>

definition example_script :: script where
  "example_script =
     \<lparr>to_number = (\<lambda>s. NaN), new_URI = example_new_URI, port_free = (\<lambda>n. True),
      child_pid = 4242,
      startup = [StdoutData ''root INFO Theia app listening on http://localhost:3030. []''],
      probe_events = (\<lambda>i. []), responded = (\<lambda>i. i = 0), late_response = False\<rparr>"

text \<open>The child prints something else and exits; nothing matches before the timer fires.\<close>

definition silent_script :: script where
  "silent_script = example_script\<lparr>startup := [StdoutData ''yarn run v1.7.0'', ProcExit]\<rparr>"

text \<open>The child prints the readiness line, but no request is ever answered.\<close>

definition unanswered_script :: script where
  "unanswered_script = example_script\<lparr>responded := (\<lambda>i. False)\<rparr>"

text \<open>
  The spawned \<open>yarn\<close> process exits while the server it started keeps writing to the
  inherited output and answers the request.
\<close>

definition orphaned_script :: script where
  "orphaned_script =
     example_script\<lparr>startup :=
       [ProcExit, StdoutData ''root INFO Theia app listening on http://localhost:3030. []'']\<rparr>"

definition occupied_script :: script where
  "occupied_script = example_script\<lparr>port_free := (\<lambda>n. False)\<rparr>"

definition append_path :: "string \<Rightarrow> uri \<Rightarrow> uri" where
  "append_path s u = u\<lparr>path := path u @ s\<rparr>"

text \<open>The process table under the child: a direct child and a grandchild.\<close>

definition example_tree :: "nat \<Rightarrow> proc list" where
  "example_tree pid =
     (if pid = 4242 then [\<lparr>PID = 4243, PPID = 4242\<rparr>, \<lparr>PID = 4250, PPID = 4243\<rparr>] else [])"

text \<open>The manager and the module after the launch of \<open>example_script\<close> on port 8080.\<close>

definition started_manager :: manager where
  "started_manager =
     \<lparr>hostedInstanceProcess = Some 4242, isInstanceRunnig = True, port = Some (Num 8080),
      instanceUri = Some example_endpoint\<rparr>"

definition started_module :: module_state where
  "started_module =
     \<lparr>PROCESS_OPTIONS = \<lparr>cwd = ''/'', env = 1\<rparr>,
      store = (\<lambda>_. [])(0 := example_process_env,
                1 := [(''HOME'', ''/root''), (''HOSTED_PLUGIN'', ''/home/user/plugin''),
                      (''THEIA_PLUGINS'', [])]),
      effects =
        [Listen (Num 8080) ''0.0.0.0'', CloseServer (Num 8080),
         Spawn ''yarn'' [''theia'', ''start'', ''--port=8080''] \<lparr>cwd = ''/'', env = 1\<rparr>
           [(''HOME'', ''/root''), (''HOSTED_PLUGIN'', ''/home/user/plugin''),
            (''THEIA_PLUGINS'', [])],
         SetTimeout 30000, RemoveDataListener 4242, HttpGet example_endpoint, Delay 1000]\<rparr>"

text \<open>The manager and the module after the launch of \<open>silent_script\<close> on port 8080.\<close>

definition timed_out_manager :: manager where
  "timed_out_manager =
     \<lparr>hostedInstanceProcess = Some 4242, isInstanceRunnig = False, port = Some (Num 8080),
      instanceUri = None\<rparr>"

definition timed_out_module :: module_state where
  "timed_out_module =
     \<lparr>PROCESS_OPTIONS = \<lparr>cwd = ''/'', env = 1\<rparr>,
      store = (\<lambda>_. [])(0 := example_process_env,
                1 := [(''HOME'', ''/root''), (''HOSTED_PLUGIN'', ''/home/user/plugin''),
                      (''THEIA_PLUGINS'', [])]),
      effects =
        [Listen (Num 8080) ''0.0.0.0'', CloseServer (Num 8080),
         Spawn ''yarn'' [''theia'', ''start'', ''--port=8080''] \<lparr>cwd = ''/'', env = 1\<rparr>
           [(''HOME'', ''/root''), (''HOSTED_PLUGIN'', ''/home/user/plugin''),
            (''THEIA_PLUGINS'', [])],
         SetTimeout 30000, ChildKill 4242]\<rparr>"

text \<open>Two launches from one module: the first times out, the second is for another plugin.\<close>

definition first_launch :: "uri option promise \<times> manager \<times> module_state" where
  "first_launch =
     run ElectronNodeHostedPluginRunner silent_script example_location (Some (Num 8080))
       new_manager fresh_module"

definition second_launch :: "uri option promise \<times> manager \<times> module_state" where
  "second_launch =
     run ElectronNodeHostedPluginRunner example_script other_location (Some (Num 8080))
       timed_out_manager timed_out_module"

definition valid_manifest :: json where
  "valid_manifest = JObj [(''theiaPlugin'', JObj [(''backend'', JStr ''main.js'')])]"

definition empty_entry_manifest :: json where
  "empty_entry_manifest = JObj [(''theiaPlugin'', JObj [(''frontend'', JStr [])])]"

definition example_manifest_path :: string where
  "example_manifest_path = ''/home/user/plugin/package.json''"




section \<open>Lemmas\<close>

subsection \<open>The log and the store\<close>

lemma effects_emit [simp]: "effects (emit e w) = effects w @ [e]"
  and store_emit [simp]: "store (emit e w) = store w"
  and PO_emit [simp]: "PROCESS_OPTIONS (emit e w) = PROCESS_OPTIONS w"
  by (simp_all add: emit_def)

lemma effects_env_set [simp]: "effects (env_set a k v w) = effects w"
  and PO_env_set [simp]: "PROCESS_OPTIONS (env_set a k v w) = PROCESS_OPTIONS w"
  and store_env_set: "store (env_set a k v w) = (store w)(a := AList.update k v (store w a))"
  by (simp_all add: env_set_def)

subsection \<open>The readiness pattern\<close>

text \<open>
  A match of the pattern is an occurrence of the literal text, then the group, then
  \<open>. []\<close>, within one line; so a chunk of output can only match where the output as a
  whole has a matching line.
\<close>

lemma before_last_Some:
  "before_last pat s = Some pre \<Longrightarrow> \<exists>rest. s = pre @ pat @ rest"
proof (induction s arbitrary: pre)
  case Nil
  then show ?case by (simp split: if_splits)
next
  case (Cons c cs)
  show ?case
  proof (cases "before_last pat cs")
    case None
    with Cons.prems have "prefix pat (c # cs)" "pre = []" by (simp_all split: if_splits)
    then show ?thesis by (auto simp: prefix_def)
  next
    case (Some pre')
    with Cons.prems have "pre = c # pre'" by simp
    with Cons.IH [OF Some] show ?thesis by auto
  qed
qed

lemma before_last_occurs:
  "before_last pat (x @ pat @ z) \<noteq> None"
proof (induction x)
  case Nil
  show ?case
  proof (cases "pat @ z")
    case Nil
    then show ?thesis by simp
  next
    case (Cons c cs)
    then have "prefix pat (c # cs)" by (metis prefixI)
    with Cons show ?thesis by (simp split: option.splits)
  qed
next
  case (Cons a x)
  then show ?case by (auto split: option.splits)
qed

lemma match_line_occurs:
  "match_line (x @ ''Theia app listening on '' @ y @ ''. []'' @ z) \<noteq> None"
proof (induction x)
  case Nil
  let ?rest = "y @ ''. []'' @ z"
  have "match_line (''Theia app listening on '' @ ?rest) \<noteq> None"
    using before_last_occurs [of "''. []''" y z]
    by (simp split: option.splits)
  then show ?case by simp
next
  case (Cons a x)
  then show ?case by (auto split: option.splits)
qed

lemma match_line_Some:
  "match_line l = Some g \<Longrightarrow>
     \<exists>x z. l = x @ ''Theia app listening on '' @ g @ ''. []'' @ z"
proof (induction l)
  case Nil
  then show ?case by simp
next
  case (Cons c cs)
  show ?case
  proof (cases "match_line cs")
    case (Some g')
    with Cons.prems have "g' = g" by simp
    with Cons.IH Some obtain x z where "cs = x @ ''Theia app listening on '' @ g @ ''. []'' @ z"
      by blast
    then have "c # cs = (c # x) @ ''Theia app listening on '' @ g @ ''. []'' @ z" by simp
    then show ?thesis by blast
  next
    case None
    with Cons.prems have p: "prefix ''Theia app listening on '' (c # cs)"
      and b: "before_last ''. []'' (drop (length ''Theia app listening on '') (c # cs)) = Some g"
      by (simp_all split: if_splits)
    from p obtain rest where r: "c # cs = ''Theia app listening on '' @ rest"
      by (auto simp: prefix_def)
    then have "drop (length ''Theia app listening on '') (c # cs) = rest"
      by (metis append_eq_conv_conj)
    with b before_last_Some obtain z where "rest = g @ ''. []'' @ z" by blast
    with r have "c # cs = [] @ ''Theia app listening on '' @ g @ ''. []'' @ z" by simp
    then show ?thesis by blast
  qed
qed

lemma first_match_iff:
  "first_match ls \<noteq> None \<longleftrightarrow> (\<exists>l \<in> set ls. match_line l \<noteq> None)"
  by (induction ls) (auto split: option.splits)

lemma split_lines_nonempty: "split_lines s \<noteq> []"
  by (induction s) (auto split: list.splits)

lemma split_lines_first:
  "(\<forall>c \<in> set m. \<not> is_line_terminator c) \<Longrightarrow> \<exists>v ls. split_lines (m @ b) = (m @ v) # ls"
proof (induction m)
  case Nil
  then show ?case using split_lines_nonempty [of b] by (cases "split_lines b") auto
next
  case (Cons c m)
  then obtain v ls where "split_lines (m @ b) = (m @ v) # ls" by auto
  with Cons.prems show ?case by simp
qed

lemma split_lines_within:
  assumes "\<forall>c \<in> set m. \<not> is_line_terminator c"
  shows "\<exists>l \<in> set (split_lines (a @ m @ b)). \<exists>u v. l = u @ m @ v"
proof (induction a)
  case Nil
  from split_lines_first [OF assms, of b] obtain v ls where "split_lines (m @ b) = (m @ v) # ls"
    by blast
  then have "m @ v \<in> set (split_lines ([] @ m @ b))" "m @ v = [] @ m @ v" by simp_all
  then show ?case by blast
next
  case (Cons c a)
  then obtain l u v where l: "l \<in> set (split_lines (a @ m @ b))" "l = u @ m @ v" by blast
  show ?case
  proof (cases "is_line_terminator c")
    case True
    with l show ?thesis by auto
  next
    case False
    obtain h t where ht: "split_lines (a @ m @ b) = h # t"
      using split_lines_nonempty by (cases "split_lines (a @ m @ b)") auto
    with False have s: "split_lines ((c # a) @ m @ b) = (c # h) # t" by simp
    show ?thesis
    proof (cases "l = h")
      case True
      with l have "c # h = (c # u) @ m @ v" by simp
      with s show ?thesis by (metis list.set_intros(1))
    next
      case False
      with l ht have "l \<in> set t" by simp
      with s l show ?thesis by (metis list.set_intros(2))
    qed
  qed
qed

lemma split_lines_prefix: "split_lines d = h # t \<Longrightarrow> prefix h d"
proof (induction d arbitrary: h t)
  case Nil
  then show ?case by simp
next
  case (Cons c cs)
  then show ?case by (auto split: if_splits list.splits)
qed

lemma split_lines_substring: "l \<in> set (split_lines d) \<Longrightarrow> \<exists>a b. d = a @ l @ b"
proof (induction d arbitrary: l)
  case Nil
  then show ?case by simp
next
  case (Cons c cs)
  obtain h t where ht: "split_lines cs = h # t"
    using split_lines_nonempty by (cases "split_lines cs") auto
  show ?case
  proof (cases "is_line_terminator c")
    case True
    with Cons.prems have "l = [] \<or> l \<in> set (split_lines cs)" by simp
    then show ?thesis
    proof
      assume "l = []"
      then have "c # cs = [] @ l @ (c # cs)" by simp
      then show ?thesis by blast
    next
      assume "l \<in> set (split_lines cs)"
      with Cons.IH obtain a b where "cs = a @ l @ b" by blast
      then have "c # cs = (c # a) @ l @ b" by simp
      then show ?thesis by blast
    qed
  next
    case False
    with Cons.prems ht have "l = c # h \<or> l \<in> set t" by simp
    then show ?thesis
    proof
      assume l: "l = c # h"
      from split_lines_prefix [OF ht] obtain b where "cs = h @ b" by (auto simp: prefix_def)
      with l have "c # cs = [] @ l @ b" by simp
      then show ?thesis by blast
    next
      assume "l \<in> set t"
      with ht have "l \<in> set (split_lines cs)" by simp
      with Cons.IH obtain a b where "cs = a @ l @ b" by blast
      then have "c # cs = (c # a) @ l @ b" by simp
      then show ?thesis by blast
    qed
  qed
qed

lemma split_lines_no_terminator:
  "l \<in> set (split_lines d) \<Longrightarrow> \<forall>c \<in> set l. \<not> is_line_terminator c"
proof (induction d arbitrary: l)
  case Nil
  then show ?case by simp
next
  case (Cons c cs)
  obtain h t where ht: "split_lines cs = h # t"
    using split_lines_nonempty by (cases "split_lines cs") auto
  show ?case
  proof (cases "is_line_terminator c")
    case True
    with Cons show ?thesis by auto
  next
    case False
    with Cons.prems ht have "l = c # h \<or> l \<in> set t" by simp
    then show ?thesis
    proof
      assume "l = c # h"
      moreover have "\<forall>c \<in> set h. \<not> is_line_terminator c" using Cons.IH [of h] ht by simp
      ultimately show ?thesis using False by simp
    next
      assume "l \<in> set t"
      then show ?thesis using Cons.IH [of l] ht by simp
    qed
  qed
qed

text \<open>A match in a part of the output is a match in the output.\<close>

lemma regex_match_in_part:
  assumes "THEIA_INSTANCE_REGEX_exec d \<noteq> None"
  shows "THEIA_INSTANCE_REGEX_exec (a @ d @ b) \<noteq> None"
proof -
  from assms have "first_match (split_lines d) \<noteq> None"
    by (simp add: THEIA_INSTANCE_REGEX_exec_def)
  then obtain l where "l \<in> set (split_lines d)" "match_line l \<noteq> None"
    using first_match_iff by blast
  then obtain l g where l: "l \<in> set (split_lines d)" "match_line l = Some g"
    by (cases "match_line l") auto
  from match_line_Some [OF l(2)] obtain x z
    where lx: "l = x @ ''Theia app listening on '' @ g @ ''. []'' @ z" by blast
  from split_lines_substring [OF l(1)] obtain a' b' where d: "d = a' @ l @ b'" by blast
  from split_lines_no_terminator [OF l(1)]
  have "\<exists>l' \<in> set (split_lines ((a @ a') @ l @ (b' @ b))). \<exists>u v. l' = u @ l @ v"
    by (rule split_lines_within)
  then obtain l' u v where l': "l' \<in> set (split_lines (a @ d @ b))" "l' = u @ l @ v"
    using d by auto
  from l'(2) lx have "l' = (u @ x) @ ''Theia app listening on '' @ g @ ''. []'' @ (z @ v)"
    by simp
  then have "match_line l' \<noteq> None" using match_line_occurs by metis
  with l'(1) have "first_match (split_lines (a @ d @ b)) \<noteq> None"
    using first_match_iff by blast
  then show ?thesis by (simp add: THEIA_INSTANCE_REGEX_exec_def)
qed

lemma stdout_of_part:
  "StdoutData d \<in> set evs \<Longrightarrow> \<exists>a b. stdout_of evs = a @ d @ b"
proof (induction evs)
  case Nil
  then show ?case by simp
next
  case (Cons ev evs)
  show ?case
  proof (cases "ev = StdoutData d")
    case True
    then have "stdout_of (ev # evs) = [] @ d @ stdout_of evs" by simp
    then show ?thesis by blast
  next
    case False
    with Cons obtain a b where ab: "stdout_of evs = a @ d @ b" by auto
    show ?thesis
    proof (cases ev)
      case (StdoutData d')
      with ab have "stdout_of (ev # evs) = (d' @ a) @ d @ b" by simp
      then show ?thesis by blast
    next
      case ProcError
      with ab show ?thesis by auto
    next
      case ProcExit
      with ab show ?thesis by auto
    qed
  qed
qed

lemma no_matching_line_no_matching_chunk:
  assumes "THEIA_INSTANCE_REGEX_exec (stdout_of evs) = None"
  shows "\<forall>d. StdoutData d \<in> set evs \<longrightarrow> THEIA_INSTANCE_REGEX_exec d = None"
proof (intro allI impI)
  fix d
  assume "StdoutData d \<in> set evs"
  then obtain a b where "stdout_of evs = a @ d @ b" using stdout_of_part by blast
  with assms regex_match_in_part [of d a b] show "THEIA_INSTANCE_REGEX_exec d = None"
    by (cases "THEIA_INSTANCE_REGEX_exec d") simp_all
qed

subsection \<open>Port validation and the start command\<close>



lemma validatePort_frame:
  assumes "validatePort n free w = (res, w')"
  shows "store w' = store w \<and> PROCESS_OPTIONS w' = PROCESS_OPTIONS w \<and>
         (\<exists>xs. effects w' = effects w @ xs \<and> \<not> list_ex is_spawn xs)"
  using assms
  by (auto simp: validatePort_def isPortFree_def Let_def split: if_splits)

lemma getStartCommand_base_frame:
  assumes "getStartCommand_base sc p m w = (res, m', w')"
  shows "store w' = store w \<and> PROCESS_OPTIONS w' = PROCESS_OPTIONS w \<and>
         (\<exists>xs. effects w' = effects w @ xs \<and> \<not> list_ex is_spawn xs) \<and>
         isInstanceRunnig m' = isInstanceRunnig m \<and>
         hostedInstanceProcess m' = hostedInstanceProcess m \<and> instanceUri m' = instanceUri m"
proof (cases "truthy_number p")
  case False
  with assms show ?thesis by (auto simp: getStartCommand_base_def Let_def)
next
  case True
  then obtain n where p: "p = Some n" by (cases p) auto
  obtain r1 w1 where v: "validatePort n (port_free sc) w = (r1, w1)" by force
  from validatePort_frame [OF v] assms True p v show ?thesis
    by (cases r1) (auto simp: getStartCommand_base_def Let_def)
qed

lemma getStartCommand_frame:
  assumes "getStartCommand r sc p m w = (res, m', w')"
  shows "store w' = store w \<and> PROCESS_OPTIONS w' = PROCESS_OPTIONS w \<and>
         (\<exists>xs. effects w' = effects w @ xs \<and> \<not> list_ex is_spawn xs) \<and>
         isInstanceRunnig m' = isInstanceRunnig m \<and>
         hostedInstanceProcess m' = hostedInstanceProcess m \<and> instanceUri m' = instanceUri m"
proof (cases r)
  case (NodeHostedPluginRunner ps)
  with assms show ?thesis by (simp add: getStartCommand_base_frame)
next
  case ElectronNodeHostedPluginRunner
  with assms show ?thesis by (simp add: getStartCommand_base_frame)
qed

lemma getStartCommand_base_command:
  assumes "getStartCommand_base sc p m w = (Inr command, m', w')"
  shows "\<exists>args. command = ''yarn'' # args"
proof (cases "truthy_number p")
  case False
  with assms show ?thesis by (auto simp: getStartCommand_base_def Let_def split: option.splits)
next
  case True
  then obtain n where p: "p = Some n" by (cases p) auto
  obtain r1 w1 where v: "validatePort n (port_free sc) w = (r1, w1)" by force
  from assms True p v show ?thesis
    by (cases r1) (auto simp: getStartCommand_base_def Let_def split: option.splits)
qed

lemma getStartCommand_command:
  assumes "getStartCommand r sc p m w = (Inr command, m', w')"
  shows "\<exists>args. command = ''yarn'' # args"
  using assms by (cases r) (auto dest: getStartCommand_base_command)

subsection \<open>Waiting for the readiness line\<close>

lemma await_startup_timeout:
  assumes "\<forall>d. StdoutData d \<in> set evs \<longrightarrow> THEIA_INSTANCE_REGEX_exec d = None"
    and "hostedInstanceProcess m = Some child"
  shows "await_startup mk evs m w =
           (Rejected Timeout, m\<lparr>isInstanceRunnig := False\<rparr>, emit (ChildKill child) w)"
  using assms
proof (induction evs arbitrary: m)
  case Nil
  then show ?case by simp
next
  case (Cons ev evs)
  show ?case
  proof (cases ev)
    case (StdoutData d)
    with Cons show ?thesis by simp
  next
    case ProcError
    with Cons.prems Cons.IH [of "on_error m"] show ?thesis by (simp add: on_error_def)
  next
    case ProcExit
    with Cons.prems Cons.IH [of "on_exit m"] show ?thesis by (simp add: on_exit_def)
  qed
qed

lemma await_startup_resolved:
  assumes "await_startup mk evs m w = (Resolved u, m', w')"
  shows "(\<exists>g. readiness_uri evs = Some g \<and> u = mk g) \<and>
         (\<exists>child. hostedInstanceProcess m = Some child \<and> w' = emit (RemoveDataListener child) w) \<and>
         hostedInstanceProcess m' = hostedInstanceProcess m \<and> instanceUri m' = instanceUri m \<and>
         (list_all is_output evs \<longrightarrow> m' = m)"
  using assms
proof (induction evs arbitrary: m)
  case Nil
  then show ?case by (simp split: option.splits)
next
  case (Cons ev evs)
  show ?case
  proof (cases ev)
    case (StdoutData d)
    with Cons show ?thesis by (auto split: option.splits)
  next
    case ProcError
    with Cons.prems Cons.IH [of "on_error m"] show ?thesis by (simp add: on_error_def)
  next
    case ProcExit
    with Cons.prems Cons.IH [of "on_exit m"] show ?thesis by (simp add: on_exit_def)
  qed
qed

lemma await_startup_frame:
  assumes "await_startup mk evs m w = (res, m', w')"
  shows "store w' = store w \<and> PROCESS_OPTIONS w' = PROCESS_OPTIONS w \<and>
         (\<exists>xs. effects w' = effects w @ xs \<and> \<not> list_ex is_spawn xs)"
  using assms
proof (induction evs arbitrary: m)
  case Nil
  then show ?case by (auto split: option.splits)
next
  case (Cons ev evs)
  then show ?case by (cases ev) (auto split: option.splits)
qed

subsection \<open>The liveness probe\<close>

lemma fold_lifecycle_frame:
  "hostedInstanceProcess (fold lifecycle_event evs m) = hostedInstanceProcess m \<and>
   instanceUri (fold lifecycle_event evs m) = instanceUri m"
proof (induction evs arbitrary: m)
  case Nil
  show ?case by simp
next
  case (Cons ev evs)
  then show ?case by (cases ev) (simp_all add: on_error_def on_exit_def)
qed

lemma fold_lifecycle_quiet:
  "list_all is_output evs \<Longrightarrow> fold lifecycle_event evs m = m"
proof (induction evs)
  case Nil
  show ?case by simp
next
  case (Cons ev evs)
  then show ?case by (cases ev) simp_all
qed

lemma ensure_loop_frame:
  "ensure_loop sc u i isReady m w = (r', m', w') \<Longrightarrow>
     store w' = store w \<and> PROCESS_OPTIONS w' = PROCESS_OPTIONS w \<and>
     (\<exists>xs. effects w' = effects w @ xs \<and> \<not> list_ex is_spawn xs) \<and>
     hostedInstanceProcess m' = hostedInstanceProcess m \<and> instanceUri m' = instanceUri m"
proof (induction sc u i isReady m w rule: ensure_loop.induct)
  case (1 sc u i isReady m w)
  show ?case
  proof (cases "i < 10 \<and> \<not> isReady")
    case False
    with "1.prems" show ?thesis by (simp add: ensure_loop.simps)
  next
    case True
    obtain r1 m1 w1 where ps: "pause_unless_ready sc i isReady m (emit (HttpGet u) w) = (r1, m1, w1)"
      by (metis prod_cases3)
    with True "1.prems" have rec: "ensure_loop sc u (i + 1) r1 m1 w1 = (r', m', w')"
      by (simp add: ensure_loop.simps [of sc u i])
    from "1.IH" [OF True ps [symmetric] refl rec]
    have ih: "store w' = store w1 \<and> PROCESS_OPTIONS w' = PROCESS_OPTIONS w1 \<and>
     (\<exists>xs. effects w' = effects w1 @ xs \<and> \<not> list_ex is_spawn xs) \<and>
     hostedInstanceProcess m' = hostedInstanceProcess m1 \<and> instanceUri m' = instanceUri m1" .
    from ps True have "w1 = emit (Delay 1000) (emit (HttpGet u) w)"
      "m1 = fold lifecycle_event (probe_events sc i) m"
      by (simp_all add: pause_unless_ready_def)
    with ih show ?thesis by (auto simp: fold_lifecycle_frame)
  qed
qed

lemma ensure_loop_quiet:
  "ensure_loop sc u i isReady m w = (r', m', w') \<Longrightarrow>
   \<forall>j < 10. list_all is_output (probe_events sc j) \<Longrightarrow> m' = m"
proof (induction sc u i isReady m w rule: ensure_loop.induct)
  case (1 sc u i isReady m w)
  show ?case
  proof (cases "i < 10 \<and> \<not> isReady")
    case False
    with "1.prems" show ?thesis by (simp add: ensure_loop.simps)
  next
    case True
    obtain r1 m1 w1 where ps: "pause_unless_ready sc i isReady m (emit (HttpGet u) w) = (r1, m1, w1)"
      by (metis prod_cases3)
    with True "1.prems" have rec: "ensure_loop sc u (i + 1) r1 m1 w1 = (r', m', w')"
      by (simp add: ensure_loop.simps [of sc u i])
    from "1.IH" [OF True ps [symmetric] refl rec "1.prems"(2)] have "m' = m1" .
    moreover from ps True "1.prems"(2) have "m1 = m"
      by (simp add: pause_unless_ready_def fold_lifecycle_quiet)
    ultimately show ?thesis by simp
  qed
qed

lemma ensureUriAvailable_frame:
  assumes "ensureUriAvailable sc u m w = (res, m', w')"
  shows "store w' = store w \<and> PROCESS_OPTIONS w' = PROCESS_OPTIONS w \<and>
     (\<exists>xs. effects w' = effects w @ xs \<and> \<not> list_ex is_spawn xs) \<and>
     hostedInstanceProcess m' = hostedInstanceProcess m \<and> instanceUri m' = instanceUri m \<and>
     ((\<forall>j < 10. list_all is_output (probe_events sc j)) \<longrightarrow> m' = m) \<and>
     res \<noteq> Rejected e"
proof -
  obtain r1 m1 w1 where l: "ensure_loop sc u 0 False m w = (r1, m1, w1)"
    by (metis prod_cases3)
  with assms have eq: "m' = m1" "w' = w1" and res: "res = (if r1 \<or> late_response sc then Resolved () else Pending)"
    by (auto simp: ensureUriAvailable_def ensure_executor_def)
  from ensure_loop_frame [OF l] ensure_loop_quiet [OF l] eq res show ?thesis
    by auto
qed

subsection \<open>The phases of \<open>run\<close>\<close>

lemma runHosted_unfold:
  "runHostedPluginTheiaInstance sc (cmd # args) opts m w =
     await_startup (new_URI sc) (startup sc)
       (m\<lparr>isInstanceRunnig := True, hostedInstanceProcess := Some (child_pid sc)\<rparr>)
       (emit (SetTimeout 30000) (emit (Spawn cmd args opts (store w (env opts))) w))"
  by (simp add: runHostedPluginTheiaInstance_def HOSTED_INSTANCE_START_TIMEOUT_MS_def)

lemma written_simps [simp]:
  "effects (written pu w) = effects w"
  "PROCESS_OPTIONS (written pu w) = PROCESS_OPTIONS w"
  "store (written pu w) = (store w)(env (PROCESS_OPTIONS w) := launch_env pu (store w (env (PROCESS_OPTIONS w))))"
  by (simp_all add: written_def launch_env_def store_env_set)

lemma run_start_failed:
  assumes "\<not> isInstanceRunnig m" "scheme pu = ''file''"
    and "getStartCommand r sc p m (written pu w) = (Inl e, m1, w3)"
  shows "run r sc pu p m w = (Rejected e, m1, w3)"
  using assms by (simp add: run_def written_def Let_def)

lemma run_started:
  assumes "\<not> isInstanceRunnig m" "scheme pu = ''file''"
    and "getStartCommand r sc p m (written pu w) = (Inr (cmd # args), m1, w3)"
    and "await_startup (new_URI sc) (startup sc)
       (m1\<lparr>isInstanceRunnig := True, hostedInstanceProcess := Some (child_pid sc)\<rparr>)
       (emit (SetTimeout 30000) (emit (Spawn cmd args (PROCESS_OPTIONS w) (store w3 (env (PROCESS_OPTIONS w)))) w3))
       = (res, m2, w4)"
  shows "run r sc pu p m w =
     (case res of
        Rejected e \<Rightarrow> (Rejected e, m2, w4)
      | Pending \<Rightarrow> (Pending, m2, w4)
      | Resolved u \<Rightarrow>
          (case ensureUriAvailable sc (postProcessInstanceUri r u)
                  (m2\<lparr>instanceUri := Some (postProcessInstanceUri r u)\<rparr>) w4 of
             (Rejected e, m4, w5) \<Rightarrow> (Rejected e, m4, w5)
           | (Pending, m4, w5) \<Rightarrow> (Pending, m4, w5)
           | (Resolved _, m4, w5) \<Rightarrow> (Resolved (instanceUri m4), m4, w5)))"
  using assms by (simp add: run_def written_def Let_def runHosted_unfold split: promise.splits)

lemma run_file_cases [consumes 3, case_names start_failed started]:
  assumes "\<not> isInstanceRunnig m" and "scheme pu = ''file''"
    and "run r sc pu p m w = (res, m', w')"
  obtains
    (start_failed) e xs where
      "res = Rejected e" "effects w' = effects w @ xs" "\<not> list_ex is_spawn xs"
      "store w' = store (written pu w)" "PROCESS_OPTIONS w' = PROCESS_OPTIONS w"
  | (started) args xs m1 w3 res2 m2 w4 where
      "effects w3 = effects w @ xs" "\<not> list_ex is_spawn xs"
      "store w3 = store (written pu w)" "PROCESS_OPTIONS w3 = PROCESS_OPTIONS w"
      "instanceUri m1 = instanceUri m"
      "await_startup (new_URI sc) (startup sc)
         (m1\<lparr>isInstanceRunnig := True, hostedInstanceProcess := Some (child_pid sc)\<rparr>)
         (emit (SetTimeout 30000)
            (emit (Spawn ''yarn'' args (PROCESS_OPTIONS w) (store w3 (env (PROCESS_OPTIONS w)))) w3))
         = (res2, m2, w4)"
      "(res, m', w') =
         (case res2 of
            Rejected e \<Rightarrow> (Rejected e, m2, w4)
          | Pending \<Rightarrow> (Pending, m2, w4)
          | Resolved u \<Rightarrow>
              (case ensureUriAvailable sc (postProcessInstanceUri r u)
                      (m2\<lparr>instanceUri := Some (postProcessInstanceUri r u)\<rparr>) w4 of
                 (Rejected e, m4, w5) \<Rightarrow> (Rejected e, m4, w5)
               | (Pending, m4, w5) \<Rightarrow> (Pending, m4, w5)
               | (Resolved _, m4, w5) \<Rightarrow> (Resolved (instanceUri m4), m4, w5)))"
proof -
  obtain rs m1 w3 where g: "getStartCommand r sc p m (written pu w) = (rs, m1, w3)"
    by (metis prod_cases3)
  from getStartCommand_frame [OF g]
  obtain xs where fr: "effects w3 = effects w @ xs" "\<not> list_ex is_spawn xs"
      "store w3 = store (written pu w)" "PROCESS_OPTIONS w3 = PROCESS_OPTIONS w"
      "instanceUri m1 = instanceUri m"
    by auto
  show thesis
  proof (cases rs)
    case (Inl e)
    with g assms run_start_failed [of m pu r sc p w e m1 w3]
    have "res = Rejected e" "w' = w3" by simp_all
    with fr start_failed show thesis by blast
  next
    case (Inr command)
    with g getStartCommand_command obtain args where c: "command = ''yarn'' # args" by blast
    obtain res2 m2 w4 where a: "await_startup (new_URI sc) (startup sc)
         (m1\<lparr>isInstanceRunnig := True, hostedInstanceProcess := Some (child_pid sc)\<rparr>)
         (emit (SetTimeout 30000)
            (emit (Spawn ''yarn'' args (PROCESS_OPTIONS w) (store w3 (env (PROCESS_OPTIONS w)))) w3))
         = (res2, m2, w4)"
      by (metis prod_cases3)
    from run_started [OF assms(1,2) g [unfolded Inr c] a] assms(3)
    have "(res, m', w') =
         (case res2 of
            Rejected e \<Rightarrow> (Rejected e, m2, w4)
          | Pending \<Rightarrow> (Pending, m2, w4)
          | Resolved u \<Rightarrow>
              (case ensureUriAvailable sc (postProcessInstanceUri r u)
                      (m2\<lparr>instanceUri := Some (postProcessInstanceUri r u)\<rparr>) w4 of
                 (Rejected e, m4, w5) \<Rightarrow> (Rejected e, m4, w5)
               | (Pending, m4, w5) \<Rightarrow> (Pending, m4, w5)
               | (Resolved _, m4, w5) \<Rightarrow> (Resolved (instanceUri m4), m4, w5)))"
      by simp
    with fr a started show thesis by blast
  qed
qed

lemma run_not_started:
  assumes "isInstanceRunnig m \<or> scheme pu \<noteq> ''file''"
  shows "\<exists>e. run r sc pu p m w = (Rejected e, m, w)"
  using assms by (auto simp: run_def)

lemma run_resolved:
  assumes "run r sc pu p m w = (Resolved e, m', w')"
  shows "(\<exists>g. readiness_uri (startup sc) = Some g \<and>
              e = Some (postProcessInstanceUri r (new_URI sc g))) \<and>
         instanceUri m' = e \<and> hostedInstanceProcess m' = Some (child_pid sc) \<and>
         (quiet sc \<longrightarrow> isInstanceRunnig m')"
proof -
  from assms run_not_started [of m pu r sc p w]
  have pre: "\<not> isInstanceRunnig m" "scheme pu = ''file''" by auto
  from pre assms show ?thesis
  proof (cases rule: run_file_cases)
    case (start_failed e xs)
    then show ?thesis by simp
  next
    case (started args xs m1 w3 res2 m2 w4)
    from started(7) obtain u where r2: "res2 = Resolved u"
      by (cases res2) auto
    obtain r5 m4 w5 where en: "ensureUriAvailable sc (postProcessInstanceUri r u)
                      (m2\<lparr>instanceUri := Some (postProcessInstanceUri r u)\<rparr>) w4 = (r5, m4, w5)"
      by (metis prod_cases3)
    with started(7) r2 have fin: "e = instanceUri m4" "m' = m4"
      by (cases r5; simp)+
    from await_startup_resolved [OF started(6) [unfolded r2]]
    obtain g where g: "readiness_uri (startup sc) = Some g" "u = new_URI sc g"
      and m2: "hostedInstanceProcess m2 = Some (child_pid sc)"
              "list_all is_output (startup sc) \<longrightarrow>
                 m2 = m1\<lparr>isInstanceRunnig := True, hostedInstanceProcess := Some (child_pid sc)\<rparr>"
      by auto
    from ensureUriAvailable_frame [OF en]
    have m4: "hostedInstanceProcess m4 = hostedInstanceProcess m2"
        "instanceUri m4 = Some (postProcessInstanceUri r u)"
        "(\<forall>j < 10. list_all is_output (probe_events sc j)) \<longrightarrow>
            m4 = m2\<lparr>instanceUri := Some (postProcessInstanceUri r u)\<rparr>"
      by simp_all
    from fin g m2 m4 show ?thesis by (auto simp: quiet_def list_all_iff)
  qed
qed

lemma not_list_ex_spawn: "\<not> list_ex is_spawn xs \<Longrightarrow> x \<in> set xs \<Longrightarrow> \<not> is_spawn x"
  by (auto simp: list_ex_iff)

lemma run_file_summary:
  assumes "\<not> isInstanceRunnig m" and "scheme pu = ''file''"
    and "run r sc pu p m w = (res, m', w')"
  shows "PROCESS_OPTIONS w' = PROCESS_OPTIONS w \<and> store w' = store (written pu w) \<and>
         (\<exists>xs. effects w' = effects w @ xs \<and>
            (\<forall>x \<in> set xs. is_spawn x \<longrightarrow>
               (\<exists>args. x = Spawn ''yarn'' args (PROCESS_OPTIONS w) (store w' (env (PROCESS_OPTIONS w))))))"
  using assms
proof (cases rule: run_file_cases)
  case (start_failed e xs)
  then show ?thesis by (auto dest: not_list_ex_spawn)
next
  case (started args xs m1 w3 res2 m2 w4)
  let ?sp = "Spawn ''yarn'' args (PROCESS_OPTIONS w) (store w3 (env (PROCESS_OPTIONS w)))"
  from await_startup_frame [OF started(6)]
  obtain ys where w4: "store w4 = store w3" "PROCESS_OPTIONS w4 = PROCESS_OPTIONS w3"
      "effects w4 = effects w3 @ [?sp, SetTimeout 30000] @ ys" "\<not> list_ex is_spawn ys"
    by auto
  have "PROCESS_OPTIONS w' = PROCESS_OPTIONS w4 \<and> store w' = store w4 \<and>
        (\<exists>zs. effects w' = effects w4 @ zs \<and> \<not> list_ex is_spawn zs)"
  proof (cases res2)
    case (Resolved u)
    obtain r5 m4 w5 where en: "ensureUriAvailable sc (postProcessInstanceUri r u)
                      (m2\<lparr>instanceUri := Some (postProcessInstanceUri r u)\<rparr>) w4 = (r5, m4, w5)"
      by (metis prod_cases3)
    with started(7) Resolved have "w' = w5" by (cases r5) simp_all
    with ensureUriAvailable_frame [OF en] show ?thesis by simp
  next
    case (Rejected e)
    with started(7) show ?thesis by simp
  next
    case Pending
    with started(7) show ?thesis by simp
  qed
  then obtain zs where w': "PROCESS_OPTIONS w' = PROCESS_OPTIONS w4" "store w' = store w4"
      "effects w' = effects w4 @ zs" "\<not> list_ex is_spawn zs"
    by auto
  have "effects w' = effects w @ (xs @ [?sp, SetTimeout 30000] @ ys @ zs)"
    using w' w4 started(1) by simp
  moreover have "\<forall>x \<in> set (xs @ [?sp, SetTimeout 30000] @ ys @ zs). is_spawn x \<longrightarrow>
       (\<exists>args. x = Spawn ''yarn'' args (PROCESS_OPTIONS w) (store w' (env (PROCESS_OPTIONS w))))"
    using started(2) w4(1,4) w'(2,4) by (auto dest: not_list_ex_spawn)
  ultimately show ?thesis using w' w4 started(3,4) by metis
qed

text \<open>
  The start timer, for a child none of whose chunks of output matches: what \<open>run\<close>
  returns once the start command is there.
\<close>

lemma run_timeout_result:
  assumes "\<not> isInstanceRunnig m" and "scheme pluginUri = ''file''"
    and "getStartCommand r sc p m (written pluginUri w) = (Inr command, m1, w1)"
    and "\<forall>d. StdoutData d \<in> set (startup sc) \<longrightarrow> THEIA_INSTANCE_REGEX_exec d = None"
  shows "\<exists>args. command = ''yarn'' # args \<and>
           run r sc pluginUri p m w =
             (Rejected Timeout,
              m1\<lparr>isInstanceRunnig := False, hostedInstanceProcess := Some (child_pid sc)\<rparr>,
              w1\<lparr>effects := effects w1 @
                 [Spawn ''yarn'' args (PROCESS_OPTIONS w) (store w1 (env (PROCESS_OPTIONS w))),
                  SetTimeout HOSTED_INSTANCE_START_TIMEOUT_MS,
                  ChildKill (child_pid sc)]\<rparr>)"
proof -
  from assms(3) getStartCommand_command obtain args where c: "command = ''yarn'' # args" by blast
  let ?m2 = "m1\<lparr>isInstanceRunnig := True, hostedInstanceProcess := Some (child_pid sc)\<rparr>"
  let ?w2 = "emit (SetTimeout 30000)
               (emit (Spawn ''yarn'' args (PROCESS_OPTIONS w) (store w1 (env (PROCESS_OPTIONS w)))) w1)"
  have "hostedInstanceProcess ?m2 = Some (child_pid sc)" by simp
  from await_startup_timeout [OF assms(4) this]
  have a: "await_startup (new_URI sc) (startup sc) ?m2 ?w2 =
             (Rejected Timeout, ?m2\<lparr>isInstanceRunnig := False\<rparr>, emit (ChildKill (child_pid sc)) ?w2)" .
  from run_started [OF assms(1,2) assms(3) [unfolded c] a]
  have "run r sc pluginUri p m w =
          (Rejected Timeout, ?m2\<lparr>isInstanceRunnig := False\<rparr>, emit (ChildKill (child_pid sc)) ?w2)"
    by simp
  then have "run r sc pluginUri p m w =
             (Rejected Timeout,
              m1\<lparr>isInstanceRunnig := False, hostedInstanceProcess := Some (child_pid sc)\<rparr>,
              w1\<lparr>effects := effects w1 @
                 [Spawn ''yarn'' args (PROCESS_OPTIONS w) (store w1 (env (PROCESS_OPTIONS w))),
                  SetTimeout HOSTED_INSTANCE_START_TIMEOUT_MS,
                  ChildKill (child_pid sc)]\<rparr>)"
    by (simp add: emit_def HOSTED_INSTANCE_START_TIMEOUT_MS_def)
  with c show ?thesis by blast
qed




text \<open>\<open>run\<close> goes on from the state \<open>starting\<close> describes, with what the child does.\<close>

lemma run_from_starting:
  assumes "starting r sc pluginUri p m w = Some (m2, w2)"
  shows "run r sc pluginUri p m w =
     (case await_startup (new_URI sc) (startup sc) m2 w2 of
        (Rejected e, m3, w3) \<Rightarrow> (Rejected e, m3, w3)
      | (Pending, m3, w3) \<Rightarrow> (Pending, m3, w3)
      | (Resolved u, m3, w3) \<Rightarrow>
          (case ensureUriAvailable sc (postProcessInstanceUri r u)
                  (m3\<lparr>instanceUri := Some (postProcessInstanceUri r u)\<rparr>) w3 of
             (Rejected e, m4, w5) \<Rightarrow> (Rejected e, m4, w5)
           | (Pending, m4, w5) \<Rightarrow> (Pending, m4, w5)
           | (Resolved _, m4, w5) \<Rightarrow> (Resolved (instanceUri m4), m4, w5)))"
proof -
  from assms have pre: "\<not> isInstanceRunnig m" "scheme pluginUri = ''file''"
    by (auto simp: starting_def split: if_splits)
  obtain rs m1 w3 where g: "getStartCommand r sc p m (written pluginUri w) = (rs, m1, w3)"
    by (metis prod_cases3)
  with assms pre obtain cmd args where rs: "rs = Inr (cmd # args)"
    and m2: "m2 = m1\<lparr>isInstanceRunnig := True, hostedInstanceProcess := Some (child_pid sc)\<rparr>"
    and w2: "w2 = emit (SetTimeout 30000)
                    (emit (Spawn cmd args (PROCESS_OPTIONS w) (store w3 (env (PROCESS_OPTIONS w)))) w3)"
    by (auto simp: starting_def written_def Let_def HOSTED_INSTANCE_START_TIMEOUT_MS_def
             split: sum.splits list.splits)
  obtain res m3 w4 where a: "await_startup (new_URI sc) (startup sc) m2 w2 = (res, m3, w4)"
    by (metis prod_cases3)
  from run_started [OF pre g [unfolded rs] a [unfolded m2 w2]] a
  show ?thesis by (cases res) simp_all
qed


text \<open>Whatever the endpoint answers, the probe's promise is never rejected.\<close>

lemma ensureUriAvailable_never_rejects:
  "fst (ensureUriAvailable sc u m w) \<noteq> Rejected e"
  using ensureUriAvailable_frame [of sc u m w "fst (ensureUriAvailable sc u m w)"
      "fst (snd (ensureUriAvailable sc u m w))" "snd (snd (ensureUriAvailable sc u m w))" e]
  by simp

lemma validatePort_errors:
  "validatePort n free w = (Inl e, w') \<Longrightarrow> e = PortIncorrect \<or> e = PortInUse n"
  by (auto simp: validatePort_def isPortFree_def Let_def split: if_splits)

lemma getStartCommand_base_errors:
  assumes "getStartCommand_base sc p m w = (Inl e, m', w')"
  shows "e = PortIncorrect \<or> (\<exists>n. e = PortInUse n)"
proof (cases "truthy_number p")
  case False
  with assms show ?thesis by (simp add: getStartCommand_base_def Let_def)
next
  case True
  then obtain n where p: "p = Some n" by (cases p) auto
  obtain r1 w1 where v: "validatePort n (port_free sc) w = (r1, w1)" by force
  show ?thesis
  proof (cases r1)
    case (Inl e')
    with assms True p v have "e = e'" by (simp add: getStartCommand_base_def Let_def)
    with validatePort_errors [of n "port_free sc" w e' w1] v Inl show ?thesis by auto
  next
    case (Inr u)
    with assms True p v show ?thesis by (simp add: getStartCommand_base_def Let_def)
  qed
qed

lemma getStartCommand_errors:
  assumes "getStartCommand r sc p m w = (Inl e, m', w')"
  shows "e = PortIncorrect \<or> (\<exists>n. e = PortInUse n)"
  using assms by (cases r) (auto dest: getStartCommand_base_errors)

lemma await_startup_rejected:
  "await_startup mk evs m w = (Rejected e, m', w') \<Longrightarrow> e = Timeout"
proof (induction evs arbitrary: m)
  case Nil
  then show ?case by (simp split: option.splits)
next
  case (Cons ev evs)
  then show ?case by (cases ev) (auto split: option.splits)
qed

text \<open>The rejections of \<open>run\<close>: the cannot-reach error is not among them.\<close>

lemma run_rejections:
  assumes "run r sc pu p m w = (Rejected e, m', w')"
  shows "e = AlreadyRunning \<or> e = NotSupportedLocation pu \<or> e = PortIncorrect \<or>
         (\<exists>n. e = PortInUse n) \<or> e = Timeout"
proof (cases "isInstanceRunnig m \<or> scheme pu \<noteq> ''file''")
  case True
  with assms show ?thesis by (auto simp: run_def split: if_splits)
next
  case False
  then have pre: "\<not> isInstanceRunnig m" "scheme pu = ''file''" by simp_all
  obtain rs m1 w3 where g: "getStartCommand r sc p m (written pu w) = (rs, m1, w3)"
    by (metis prod_cases3)
  show ?thesis
  proof (cases rs)
    case (Inl e')
    with g pre assms run_start_failed [of m pu r sc p w e' m1 w3] have "e = e'" by simp
    with getStartCommand_errors g Inl show ?thesis by blast
  next
    case (Inr command)
    with g getStartCommand_command obtain args where c: "command = ''yarn'' # args" by blast
    obtain res2 m2 w4 where a: "await_startup (new_URI sc) (startup sc)
         (m1\<lparr>isInstanceRunnig := True, hostedInstanceProcess := Some (child_pid sc)\<rparr>)
         (emit (SetTimeout 30000)
            (emit (Spawn ''yarn'' args (PROCESS_OPTIONS w) (store w3 (env (PROCESS_OPTIONS w)))) w3))
         = (res2, m2, w4)"
      by (metis prod_cases3)
    note r = run_started [OF pre g [unfolded Inr c] a]
    show ?thesis
    proof (cases res2)
      case (Rejected e')
      with r assms have "e = e'" by simp
      with await_startup_rejected a Rejected show ?thesis by blast
    next
      case Pending
      with r assms show ?thesis by simp
    next
      case (Resolved u)
      obtain r5 m4 w5 where en: "ensureUriAvailable sc (postProcessInstanceUri r u)
                      (m2\<lparr>instanceUri := Some (postProcessInstanceUri r u)\<rparr>) w4 = (r5, m4, w5)"
        by (metis prod_cases3)
      from ensureUriAvailable_never_rejects [of sc "postProcessInstanceUri r u"
          "m2\<lparr>instanceUri := Some (postProcessInstanceUri r u)\<rparr>" w4] en
      have "r5 \<noteq> Rejected e" by simp
      with r assms Resolved en show ?thesis by (cases r5) simp_all
    qed
  qed
qed

subsection \<open>Termination\<close>

text \<open>The one \<open>kill\<close> command names exactly the pids the enumerator reported.\<close>

lemma terminate_running:
  assumes "isInstanceRunnig m" and "hostedInstanceProcess m = Some child"
  shows "terminate processTree m w =
           (Inr (Resolved ()), m,
            w\<lparr>effects := effects w @
               [ProcessTree child,
                SpawnSync ''kill'' (Lit ''SIGTERM'' # map (\<lambda>p. PidArg (PID p)) (processTree child))]\<rparr>)"
  using assms by (simp add: terminate_def emit_def Let_def)

subsection \<open>Post-processors and manifests\<close>

lemma process_all_fold: "process_all ps u = fold (\<lambda>f v. f v) ps u"
  by (induction ps arbitrary: u) simp_all

lemma get_property_truthy:
  "truthy (Some j) \<Longrightarrow> get_property j k = Inr (member_of j k)"
  by (cases j) (simp_all add: member_of_def)

lemma get_property_member:
  "j \<noteq> JNull \<Longrightarrow> get_property j k = Inr (member_of j k)"
  by (cases j) (simp_all add: member_of_def)

lemma member_has_entry: "\<not> has_entry j k \<Longrightarrow> member_of j k = None"
  by (cases j) (auto simp: member_of_def has_entry_def map_of_eq_None_iff)

text \<open>What \<open>require\<close> returns and keeps, and \<open>isPluginValid\<close> in terms of it.\<close>

lemma require_loaded:
  "fst (require files cache p) =
     (case loaded_document files cache p of None \<Rightarrow> Inl RequireError | Some j \<Rightarrow> Inr j)"
  by (simp add: require_def loaded_document_def split: option.splits file_content.splits)

lemma require_cache:
  "snd (require files cache p) =
     (case (cache p, files p) of
        (None, Some (Manifest exports)) \<Rightarrow> cache(p \<mapsto> exports)
      | _ \<Rightarrow> cache)"
  by (simp add: require_def split: option.splits file_content.splits)

lemma isPluginValid_cache:
  "snd (isPluginValid files cache u) =
     (case (cache (path u @ ''/package.json''), files (path u @ ''/package.json'')) of
        (None, Some (Manifest exports)) \<Rightarrow> cache(path u @ ''/package.json'' \<mapsto> exports)
      | _ \<Rightarrow> cache)"
  by (simp add: isPluginValid_def require_def Let_def
      split: option.splits file_content.splits sum.splits prod.splits)

lemma isPluginValid_no_file:
  "files (path u @ ''/package.json'') = None \<Longrightarrow> isPluginValid files cache u = (Inr False, cache)"
  by (simp add: isPluginValid_def)

lemma isPluginValid_unloadable:
  assumes "files (path u @ ''/package.json'') \<noteq> None"
    and "loaded_document files cache (path u @ ''/package.json'') = None"
  shows "fst (isPluginValid files cache u) = Inl RequireError"
proof -
  obtain r c where rq: "require files cache (path u @ ''/package.json'') = (r, c)"
    by (cases "require files cache (path u @ ''/package.json'')")
  with require_loaded [of files cache "path u @ ''/package.json''"] assms(2)
  have "r = Inl RequireError" by simp
  with assms(1) rq show ?thesis by (auto simp: isPluginValid_def)
qed

lemma isPluginValid_document:
  assumes "files (path u @ ''/package.json'') \<noteq> None"
    and "loaded_document files cache (path u @ ''/package.json'') = Some packageJson"
  shows "fst (isPluginValid files cache u) =
     (case get_property packageJson ''theiaPlugin'' of
        Inl e \<Rightarrow> Inl e
      | Inr None \<Rightarrow> Inr False
      | Inr (Some plugin) \<Rightarrow>
          if \<not> truthy (Some plugin) then Inr False
          else
            (case get_property plugin ''frontend'' of
               Inl e \<Rightarrow> Inl e
             | Inr frontend \<Rightarrow>
                 if truthy frontend then Inr True
                 else
                   (case get_property plugin ''backend'' of
                      Inl e \<Rightarrow> Inl e
                    | Inr backend \<Rightarrow> Inr (truthy backend))))"
proof -
  obtain r c where rq: "require files cache (path u @ ''/package.json'') = (r, c)"
    by (cases "require files cache (path u @ ''/package.json'')")
  with require_loaded [of files cache "path u @ ''/package.json''"] assms(2)
  have "r = Inr packageJson" by simp
  with assms(1) rq show ?thesis
    by (auto simp: isPluginValid_def split: sum.splits option.splits)
qed


subsection \<open>Evaluating the examples\<close>

lemma example_readiness_match:
  "THEIA_INSTANCE_REGEX_exec ''root INFO Theia app listening on http://localhost:3030. []''
     = Some ''http://localhost:3030''"
  by code_simp

lemma example_no_match: "THEIA_INSTANCE_REGEX_exec ''yarn run v1.7.0'' = None"
  by code_simp

lemma example_new_URI_endpoint: "example_new_URI ''http://localhost:3030'' = example_endpoint"
  by (simp add: example_new_URI_def example_endpoint_def)




lemma example_port_string: "digits_of 8080 = ''8080''" "digits_of 3030 = ''3030''"
  by (simp_all add: digits_of.simps)

lemmas run_eval = example_port_string run_def getStartCommand_base_def validatePort_def
  isPortFree_def js_gt_def runHostedPluginTheiaInstance_def HOSTED_INSTANCE_START_TIMEOUT_MS_def
  ensureUriAvailable_def ensure_executor_def ensure_loop.simps pause_unless_ready_def env_set_def
  emit_def process_env_def load_module_def new_manager_def example_location_def
  fresh_module_def example_process_env_def
  other_location_def Let_def example_script_def silent_script_def unanswered_script_def
  orphaned_script_def occupied_script_def example_readiness_match example_no_match
  example_new_URI_endpoint on_exit_def on_error_def

lemma example_run:
  "run ElectronNodeHostedPluginRunner example_script example_location (Some (Num 8080))
       new_manager fresh_module
     = (Resolved (Some example_endpoint), started_manager, started_module)"
  by (simp add: run_eval started_manager_def started_module_def)

lemma first_launch_eval: "first_launch = (Rejected Timeout, timed_out_manager, timed_out_module)"
  by (simp add: first_launch_def run_eval timed_out_manager_def timed_out_module_def)

lemma second_launch_eval:
  "fst second_launch = Resolved (Some example_endpoint)"
  "spawn_envs (effects (snd (snd second_launch))) =
     [[(''HOME'', ''/root''), (''HOSTED_PLUGIN'', ''/home/user/plugin''), (''THEIA_PLUGINS'', [])],
      [(''HOME'', ''/root''), (''HOSTED_PLUGIN'', ''/home/user/other''), (''THEIA_PLUGINS'', [])]]"
  by (simp_all add: second_launch_def run_eval timed_out_manager_def timed_out_module_def)

section \<open>The properties of the specification\<close>

text \<open>
  C1. On a running supervisor \<open>terminate\<close> is to enumerate the process tree under the
  spawned child and to send the termination signal, in one batch, to every descendant and
  to the child itself. The code, with the child 4242 running and the enumerator reporting
  its descendants 4243 and 4250: it asks for the tree of 4242 and runs one \<open>kill\<close>
  command whose arguments are \<open>SIGTERM\<close> and the pids the enumerator reported. The pid of
  the child itself is not among them.
\<close>

theorem terminate_leaves_child_out:
  "terminate example_tree started_manager started_module =
     (Inr (Resolved ()), started_manager,
      started_module\<lparr>effects := effects started_module @
         [ProcessTree 4242, SpawnSync ''kill'' [Lit ''SIGTERM'', PidArg 4243, PidArg 4250]]\<rparr>) \<and>
   hostedInstanceProcess started_manager = Some 4242 \<and>
   PidArg 4242 \<notin> set [Lit ''SIGTERM'', PidArg 4243, PidArg 4250]"
  by (simp add: terminate_def started_manager_def example_tree_def emit_def)

text \<open>
  C2, as stated: \<open>isRunning()\<close> is true after a \<open>run\<close> that resolved and false again once
  a following \<open>terminate\<close> has completed. After the launch of \<open>example_script\<close> the call of
  \<open>terminate\<close> resolves and \<open>isRunning()\<close> is still true. And a \<open>run\<close> can resolve on a
  manager that is not running: in \<open>orphaned_script\<close> the spawned process has exited, its
  \<open>exit\<close> handler has cleared the flag, and the endpoint still answers.
\<close>

theorem isRunning_after_terminate_counterexample:
  "run ElectronNodeHostedPluginRunner example_script example_location (Some (Num 8080))
       new_manager fresh_module
     = (Resolved (Some example_endpoint), started_manager, started_module) \<and>
   fst (terminate example_tree started_manager started_module) = Inr (Resolved ()) \<and>
   isRunning (fst (snd (terminate example_tree started_manager started_module))) \<and>
   fst (run ElectronNodeHostedPluginRunner orphaned_script example_location (Some (Num 8080))
          new_manager fresh_module) = Resolved (Some example_endpoint) \<and>
   \<not> isRunning (fst (snd (run ElectronNodeHostedPluginRunner orphaned_script example_location
          (Some (Num 8080)) new_manager fresh_module)))"
proof -
  have "fst (terminate example_tree started_manager started_module) = Inr (Resolved ())"
    "isRunning (fst (snd (terminate example_tree started_manager started_module)))"
    by (simp_all add: terminate_def started_manager_def isRunning_def Let_def)
  moreover have "fst (run ElectronNodeHostedPluginRunner orphaned_script example_location
          (Some (Num 8080)) new_manager fresh_module) = Resolved (Some example_endpoint)"
    "\<not> isRunning (fst (snd (run ElectronNodeHostedPluginRunner orphaned_script example_location
          (Some (Num 8080)) new_manager fresh_module)))"
    by (simp_all add: run_eval isRunning_def)
  ultimately show ?thesis using example_run by simp
qed

text \<open>
  C2, amended. \<open>isRunning()\<close> is false on a new manager. It is true after a \<open>run\<close> that
  resolved, provided no \<open>exit\<close> or \<open>error\<close> event of the child was handled during the call.
  It is false again once the child's \<open>exit\<close> or \<open>error\<close> event has been handled:
  \<open>terminate\<close> does not itself change the manager, so its completion alone does not make
  \<open>isRunning()\<close> false.
\<close>

theorem isRunning_lifecycle:
  "\<not> isRunning new_manager \<and>
   (run r sc pluginUri p m w = (Resolved e, m', w') \<and> quiet sc \<longrightarrow> isRunning m') \<and>
   fst (snd (terminate processTree m w)) = m \<and>
   \<not> isRunning (on_exit m) \<and> \<not> isRunning (on_error m)"
proof (intro conjI impI)
  show "\<not> isRunning new_manager" by (simp add: isRunning_def new_manager_def)
next
  assume "run r sc pluginUri p m w = (Resolved e, m', w') \<and> quiet sc"
  then show "isRunning m'"
    using run_resolved [of r sc pluginUri p m w e m' w'] by (simp add: isRunning_def)
next
  show "fst (snd (terminate processTree m w)) = m"
    by (simp add: terminate_def Let_def split: option.splits)
next
  show "\<not> isRunning (on_exit m)" by (simp add: isRunning_def on_exit_def)
next
  show "\<not> isRunning (on_error m)" by (simp add: isRunning_def on_error_def)
qed

theorem isRunning_lifecycle_witness:
  "quiet example_script \<and> \<not> isRunning new_manager \<and> isRunning started_manager \<and>
   fst (snd (terminate example_tree started_manager started_module)) = started_manager \<and>
   \<not> isRunning (on_exit started_manager)"
proof -
  have q: "quiet example_script" by (simp add: quiet_def example_script_def list_all_iff)
  have "\<not> isRunning new_manager \<and> isRunning started_manager \<and>
        fst (snd (terminate example_tree started_manager started_module)) = started_manager \<and>
        \<not> isRunning (on_exit started_manager)"
    using example_run q
      isRunning_lifecycle [where r = ElectronNodeHostedPluginRunner and sc = example_script
        and pluginUri = example_location and p = "Some (Num 8080)" and m = new_manager
        and w = fresh_module and e = "Some example_endpoint" and m' = started_manager
        and w' = started_module]
      isRunning_lifecycle [where m = started_manager and w = started_module
        and processTree = example_tree]
    by blast
  with q show ?thesis by simp
qed

text \<open>
  C3. The liveness probe is to request the endpoint up to ten times, one second apart, to
  resolve on the first response, and to make \<open>run\<close> fail with the cannot-reach error when
  none arrives. The code, on an endpoint that never answers: ten requests, each followed
  by a pause of 1000 ms; after the loop the executor throws the cannot-reach error, but the
  promise \<open>ensureUriAvailable\<close> returned is not rejected. It stays pending, and so does
  the promise of \<open>run\<close>.
\<close>

theorem unreachable_endpoint_stays_pending:
  "fst (ensure_executor unanswered_script example_endpoint new_manager fresh_module)
     = Inl (CannotReach example_endpoint) \<and>
   fst (ensureUriAvailable unanswered_script example_endpoint new_manager fresh_module) = Pending \<and>
   fst (run ElectronNodeHostedPluginRunner unanswered_script example_location (Some (Num 8080))
          new_manager fresh_module) = Pending \<and>
   effects (snd (snd (run ElectronNodeHostedPluginRunner unanswered_script example_location
          (Some (Num 8080)) new_manager fresh_module))) =
     [Listen (Num 8080) ''0.0.0.0'', CloseServer (Num 8080),
      Spawn ''yarn'' [''theia'', ''start'', ''--port=8080''] \<lparr>cwd = ''/'', env = 1\<rparr>
        [(''HOME'', ''/root''), (''HOSTED_PLUGIN'', ''/home/user/plugin''), (''THEIA_PLUGINS'', [])],
      SetTimeout 30000, RemoveDataListener 4242]
     @ concat (replicate 10 [HttpGet example_endpoint, Delay 1000])"
proof -
  have "replicate 10 [HttpGet example_endpoint, Delay 1000]
          = replicate (Suc (Suc (Suc (Suc (Suc (Suc (Suc (Suc (Suc (Suc 0))))))))))
              [HttpGet example_endpoint, Delay 1000]"
    by (simp add: eval_nat_numeral)
  then show ?thesis by (simp add: run_eval)
qed

text \<open>
  C4. A call of \<open>run\<close> on a manager that is not running, for a \<open>file\<close> location and with
  a start command (the port, if one was given, passed validation), whose child writes no
  line matching the readiness pattern before the start timer fires: the timer is set to
  30000 ms; \<open>run\<close> spawns the child, sets the timer and, when it fires, kills the spawned
  child (these three are the last entries of the log, after the entries of the port
  validation); the flag is cleared, so \<open>isRunning\<close> is false; and the promise of \<open>run\<close> is
  rejected with the timeout value.
\<close>

theorem startup_timeout:
  assumes "\<not> isRunning m" and "scheme pluginUri = ''file''"
    and "getStartCommand r sc p m (written pluginUri w) = (Inr command, m1, w1)"
    and "THEIA_INSTANCE_REGEX_exec (stdout_of (startup sc)) = None"
  shows "HOSTED_INSTANCE_START_TIMEOUT_MS = 30000 \<and>
         (\<exists>args. command = ''yarn'' # args \<and>
            run r sc pluginUri p m w =
              (Rejected Timeout,
               m1\<lparr>isInstanceRunnig := False, hostedInstanceProcess := Some (child_pid sc)\<rparr>,
               w1\<lparr>effects := effects w1 @
                  [Spawn ''yarn'' args (PROCESS_OPTIONS w) (store w1 (env (PROCESS_OPTIONS w))),
                   SetTimeout HOSTED_INSTANCE_START_TIMEOUT_MS,
                   ChildKill (child_pid sc)]\<rparr>)) \<and>
         \<not> isRunning (fst (snd (run r sc pluginUri p m w)))"
proof -
  from assms(1) have nr: "\<not> isInstanceRunnig m" by (simp add: isRunning_def)
  from run_timeout_result [OF nr assms(2,3) no_matching_line_no_matching_chunk [OF assms(4)]]
  obtain args where a: "command = ''yarn'' # args"
     "run r sc pluginUri p m w =
              (Rejected Timeout,
               m1\<lparr>isInstanceRunnig := False, hostedInstanceProcess := Some (child_pid sc)\<rparr>,
               w1\<lparr>effects := effects w1 @
                  [Spawn ''yarn'' args (PROCESS_OPTIONS w) (store w1 (env (PROCESS_OPTIONS w))),
                   SetTimeout HOSTED_INSTANCE_START_TIMEOUT_MS,
                   ChildKill (child_pid sc)]\<rparr>)"
    by blast
  from a(2) have "\<not> isRunning (fst (snd (run r sc pluginUri p m w)))"
    by (simp add: isRunning_def)
  with a show ?thesis by (auto simp: HOSTED_INSTANCE_START_TIMEOUT_MS_def)
qed

theorem startup_timeout_witness:
  "\<not> isRunning new_manager \<and> scheme example_location = ''file'' \<and>
   fst (getStartCommand ElectronNodeHostedPluginRunner silent_script (Some (Num 8080)) new_manager
          (written example_location fresh_module)) = Inr [''yarn'', ''theia'', ''start'', ''--port=8080''] \<and>
   THEIA_INSTANCE_REGEX_exec (stdout_of (startup silent_script)) = None \<and>
   fst (run ElectronNodeHostedPluginRunner silent_script example_location (Some (Num 8080))
          new_manager fresh_module) = Rejected Timeout \<and>
   \<not> isRunning (fst (snd (run ElectronNodeHostedPluginRunner silent_script example_location
          (Some (Num 8080)) new_manager fresh_module))) \<and>
   effects (snd (snd (run ElectronNodeHostedPluginRunner silent_script example_location
          (Some (Num 8080)) new_manager fresh_module))) =
     [Listen (Num 8080) ''0.0.0.0'', CloseServer (Num 8080),
      Spawn ''yarn'' [''theia'', ''start'', ''--port=8080''] \<lparr>cwd = ''/'', env = 1\<rparr>
        [(''HOME'', ''/root''), (''HOSTED_PLUGIN'', ''/home/user/plugin''), (''THEIA_PLUGINS'', [])],
      SetTimeout 30000, ChildKill 4242]"
proof -
  let ?g = "getStartCommand ElectronNodeHostedPluginRunner silent_script (Some (Num 8080))
              new_manager (written example_location fresh_module)"
  let ?run = "run ElectronNodeHostedPluginRunner silent_script example_location (Some (Num 8080))
                new_manager fresh_module"
  have nr: "\<not> isRunning new_manager" by (simp add: isRunning_def new_manager_def)
  have f: "scheme example_location = ''file''" by (simp add: example_location_def)
  let ?m1 = "\<lparr>hostedInstanceProcess = None, isInstanceRunnig = False, port = Some (Num 8080),
               instanceUri = None\<rparr>"
  let ?w1 = "\<lparr>PROCESS_OPTIONS = \<lparr>cwd = ''/'', env = 1\<rparr>,
      store = (\<lambda>_. [])(0 := example_process_env,
                1 := [(''HOME'', ''/root''), (''HOSTED_PLUGIN'', ''/home/user/plugin''),
                      (''THEIA_PLUGINS'', [])]),
      effects = [Listen (Num 8080) ''0.0.0.0'', CloseServer (Num 8080)]\<rparr>"
  have g: "?g = (Inr [''yarn'', ''theia'', ''start'', ''--port=8080''], ?m1, ?w1)"
    by (simp add: run_eval written_def)
  then have g1: "fst ?g = Inr [''yarn'', ''theia'', ''start'', ''--port=8080'']" by simp
  have n: "THEIA_INSTANCE_REGEX_exec (stdout_of (startup silent_script)) = None"
    by (simp add: silent_script_def example_no_match)
  have c: "child_pid silent_script = 4242"
    by (simp add: silent_script_def example_script_def)
  note t = startup_timeout [OF nr f g n]
  from t have nr': "\<not> isRunning (fst (snd ?run))" by blast
  from t obtain args where a: "[''yarn'', ''theia'', ''start'', ''--port=8080''] = ''yarn'' # args"
    and r0: "?run = (Rejected Timeout,
               ?m1\<lparr>isInstanceRunnig := False,
                      hostedInstanceProcess := Some (child_pid silent_script)\<rparr>,
               ?w1\<lparr>effects := effects ?w1 @
                  [Spawn ''yarn'' args (PROCESS_OPTIONS fresh_module)
                     (store ?w1 (env (PROCESS_OPTIONS fresh_module))),
                   SetTimeout HOSTED_INSTANCE_START_TIMEOUT_MS,
                   ChildKill (child_pid silent_script)]\<rparr>)"
    by blast
  from a have args: "args = [''theia'', ''start'', ''--port=8080'']" by simp
  note r = r0 [unfolded args c]
  from r have "fst ?run = Rejected Timeout" by simp
  moreover from r have "effects (snd (snd ?run)) =
     [Listen (Num 8080) ''0.0.0.0'', CloseServer (Num 8080),
      Spawn ''yarn'' [''theia'', ''start'', ''--port=8080''] \<lparr>cwd = ''/'', env = 1\<rparr>
        [(''HOME'', ''/root''), (''HOSTED_PLUGIN'', ''/home/user/plugin''), (''THEIA_PLUGINS'', [])],
      SetTimeout 30000, ChildKill 4242]"
    by (simp add: HOSTED_INSTANCE_START_TIMEOUT_MS_def fresh_module_def load_module_def)
  ultimately show ?thesis using nr f g1 n nr' by simp
qed






text \<open>
  C6, as stated: \<open>isPluginValid\<close> returns true if and only if a manifest exists at
  \<open><location>/package.json\<close> whose contribution object contains a \<open>frontend\<close> or a
  \<open>backend\<close> entry, returns false when the manifest lacks both entries, and has no side
  effects. It fails three times over. For a manifest whose only entry is empty, the entry is
  there and the result is false. After a call that loaded a valid manifest, the file
  rewritten to \<open>{}\<close> lacks both entries and the result is still true, since \<open>require\<close>
  answers from its cache. And that first call has a side effect: it leaves the manifest in
  the module cache.
\<close>

theorem isPluginValid_entry_counterexample:
  "declares_contribution empty_entry_manifest \<and>
   fst (isPluginValid [example_manifest_path \<mapsto> Manifest empty_entry_manifest] Map.empty
          example_location) = Inr False \<and>
   \<not> declares_contribution (JObj []) \<and>
   fst (isPluginValid [example_manifest_path \<mapsto> Manifest (JObj [])]
          (snd (isPluginValid [example_manifest_path \<mapsto> Manifest valid_manifest] Map.empty
                  example_location))
          example_location) = Inr True \<and>
   snd (isPluginValid [example_manifest_path \<mapsto> Manifest valid_manifest] Map.empty
          example_location) example_manifest_path = Some valid_manifest"
  by (simp add: declares_contribution_def member_of_def has_entry_def isPluginValid_def
      require_def example_manifest_path_def example_location_def empty_entry_manifest_def
      valid_manifest_def)

text \<open>
  C6, amended. \<open>isPluginValid\<close> returns true if and only if a file exists at
  \<open><location>/package.json\<close> and, in the document \<open>require\<close> returns for that path (the
  one loaded by the first call for the path in this process, which later calls reuse
  whatever the file holds by then), the \<open>theiaPlugin\<close> member is truthy and the \<open>frontend\<close>
  or the \<open>backend\<close> member of that value is truthy (an entry holding \<open>''\<close>, \<open>0\<close>, \<open>false\<close>
  or \<open>null\<close> does not count). It returns false, without throwing, when no manifest file
  exists (and then touches nothing) and when that document (any document but \<open>null\<close>)
  lacks both entries. It does not write to the file system; its one side effect is on the
  module cache, which gains the document of a path loaded for the first time.
\<close>

theorem isPluginValid_truthy_entries:
  "(fst (isPluginValid files cache u) = Inr True \<longleftrightarrow>
      files (path u @ ''/package.json'') \<noteq> None \<and>
      (\<exists>packageJson plugin.
          loaded_document files cache (path u @ ''/package.json'') = Some packageJson \<and>
          member_of packageJson ''theiaPlugin'' = Some plugin \<and> truthy (Some plugin) \<and>
          (truthy (member_of plugin ''frontend'') \<or> truthy (member_of plugin ''backend''))))
   \<and> (files (path u @ ''/package.json'') = None \<longrightarrow>
        isPluginValid files cache u = (Inr False, cache))
   \<and> (\<forall>packageJson. files (path u @ ''/package.json'') \<noteq> None \<and>
          loaded_document files cache (path u @ ''/package.json'') = Some packageJson \<and>
          packageJson \<noteq> JNull \<and> \<not> declares_contribution packageJson
        \<longrightarrow> fst (isPluginValid files cache u) = Inr False)
   \<and> snd (isPluginValid files cache u) =
       (case (cache (path u @ ''/package.json''), files (path u @ ''/package.json'')) of
          (None, Some (Manifest exports)) \<Rightarrow> cache(path u @ ''/package.json'' \<mapsto> exports)
        | _ \<Rightarrow> cache)"
proof (intro conjI allI impI)
  let ?p = "path u @ ''/package.json''"
  show "fst (isPluginValid files cache u) = Inr True \<longleftrightarrow>
      files ?p \<noteq> None \<and>
      (\<exists>packageJson plugin.
          loaded_document files cache ?p = Some packageJson \<and>
          member_of packageJson ''theiaPlugin'' = Some plugin \<and> truthy (Some plugin) \<and>
          (truthy (member_of plugin ''frontend'') \<or> truthy (member_of plugin ''backend'')))"
  proof (cases "files ?p")
    case None
    then show ?thesis by (simp add: isPluginValid_no_file)
  next
    case (Some f)
    then have ex: "files ?p \<noteq> None" by simp
    show ?thesis
    proof (cases "loaded_document files cache ?p")
      case None
      with isPluginValid_unloadable [OF ex None] show ?thesis by simp
    next
      case (Some pkg)
      note doc = isPluginValid_document [OF ex Some]
      show ?thesis
      proof (cases "pkg = JNull")
        case True
        with doc Some ex show ?thesis by (simp add: member_of_def)
      next
        case False
        then have gp: "get_property pkg ''theiaPlugin'' = Inr (member_of pkg ''theiaPlugin'')"
          by (rule get_property_member)
        show ?thesis
        proof (cases "member_of pkg ''theiaPlugin''")
          case None
          with doc Some gp ex show ?thesis by simp
        next
          case (Some plugin)
          note pl = this
          show ?thesis
          proof (cases "truthy (Some plugin)")
            case False
            with doc \<open>loaded_document files cache ?p = Some pkg\<close> gp pl ex show ?thesis by simp
          next
            case True
            then have "get_property plugin ''frontend'' = Inr (member_of plugin ''frontend'')"
              "get_property plugin ''backend'' = Inr (member_of plugin ''backend'')"
              by (simp_all add: get_property_truthy)
            with doc \<open>loaded_document files cache ?p = Some pkg\<close> gp pl True ex show ?thesis
              by auto
          qed
        qed
      qed
    qed
  qed
next
  assume "files (path u @ ''/package.json'') = None"
  then show "isPluginValid files cache u = (Inr False, cache)"
    by (rule isPluginValid_no_file)
next
  fix pkg
  assume a: "files (path u @ ''/package.json'') \<noteq> None \<and>
          loaded_document files cache (path u @ ''/package.json'') = Some pkg \<and>
          pkg \<noteq> JNull \<and> \<not> declares_contribution pkg"
  then have gp: "get_property pkg ''theiaPlugin'' = Inr (member_of pkg ''theiaPlugin'')"
    by (simp add: get_property_member)
  from a have doc: "fst (isPluginValid files cache u) =
     (case get_property pkg ''theiaPlugin'' of
        Inl e \<Rightarrow> Inl e
      | Inr None \<Rightarrow> Inr False
      | Inr (Some plugin) \<Rightarrow>
          if \<not> truthy (Some plugin) then Inr False
          else
            (case get_property plugin ''frontend'' of
               Inl e \<Rightarrow> Inl e
             | Inr frontend \<Rightarrow>
                 if truthy frontend then Inr True
                 else
                   (case get_property plugin ''backend'' of
                      Inl e \<Rightarrow> Inl e
                    | Inr backend \<Rightarrow> Inr (truthy backend))))"
    by (simp add: isPluginValid_document)
  show "fst (isPluginValid files cache u) = Inr False"
  proof (cases "member_of pkg ''theiaPlugin''")
    case None
    with doc gp show ?thesis by simp
  next
    case (Some plugin)
    with a have ne: "\<not> has_entry plugin ''frontend''" "\<not> has_entry plugin ''backend''"
      by (simp_all add: declares_contribution_def)
    show ?thesis
    proof (cases "truthy (Some plugin)")
      case False
      with doc gp Some show ?thesis by simp
    next
      case True
      then have "get_property plugin ''frontend'' = Inr None" "get_property plugin ''backend'' = Inr None"
        using ne by (simp_all add: get_property_truthy member_has_entry)
      with doc gp Some True show ?thesis by simp
    qed
  qed
next
  show "snd (isPluginValid files cache u) =
       (case (cache (path u @ ''/package.json''), files (path u @ ''/package.json'')) of
          (None, Some (Manifest exports)) \<Rightarrow> cache(path u @ ''/package.json'' \<mapsto> exports)
        | _ \<Rightarrow> cache)"
    by (rule isPluginValid_cache)
qed

theorem isPluginValid_truthy_entries_witness:
  "fst (isPluginValid [example_manifest_path \<mapsto> Manifest valid_manifest] Map.empty
          example_location) = Inr True \<and>
   snd (isPluginValid [example_manifest_path \<mapsto> Manifest valid_manifest] Map.empty
          example_location) = [example_manifest_path \<mapsto> valid_manifest] \<and>
   fst (isPluginValid [example_manifest_path \<mapsto> Manifest valid_manifest]
          [example_manifest_path \<mapsto> JObj []] example_location) = Inr False \<and>
   isPluginValid Map.empty [example_manifest_path \<mapsto> valid_manifest] example_location
     = (Inr False, [example_manifest_path \<mapsto> valid_manifest]) \<and>
   fst (isPluginValid [example_manifest_path \<mapsto> Manifest (JObj [])] Map.empty
          example_location) = Inr False"
proof -
  let ?p = "example_manifest_path"
  let ?valid = "[?p \<mapsto> Manifest valid_manifest]"
  have p: "path example_location @ ''/package.json'' = ?p"
    by (simp add: example_location_def example_manifest_path_def)
  have "?valid (path example_location @ ''/package.json'') \<noteq> None \<and>
        (\<exists>packageJson plugin.
          loaded_document ?valid Map.empty (path example_location @ ''/package.json'')
             = Some packageJson \<and>
          member_of packageJson ''theiaPlugin'' = Some plugin \<and> truthy (Some plugin) \<and>
          (truthy (member_of plugin ''frontend'') \<or> truthy (member_of plugin ''backend'')))"
    by (rule conjI, simp add: p, rule exI [of _ valid_manifest],
        rule exI [of _ "JObj [(''backend'', JStr ''main.js'')]"])
       (simp add: p valid_manifest_def member_of_def loaded_document_def)
  with isPluginValid_truthy_entries [where files = ?valid and cache = Map.empty
      and u = example_location]
  have 1: "fst (isPluginValid ?valid Map.empty example_location) = Inr True"
    by blast
  from isPluginValid_truthy_entries [where files = ?valid and cache = Map.empty
      and u = example_location]
  have 2: "snd (isPluginValid ?valid Map.empty example_location) = [?p \<mapsto> valid_manifest]"
    by (simp add: p)
  have "?valid (path example_location @ ''/package.json'') \<noteq> None \<and>
        loaded_document ?valid [?p \<mapsto> JObj []] (path example_location @ ''/package.json'')
           = Some (JObj []) \<and>
        JObj [] \<noteq> JNull \<and> \<not> declares_contribution (JObj [])"
    by (simp add: p declares_contribution_def member_of_def loaded_document_def)
  with isPluginValid_truthy_entries [where files = ?valid and cache = "[?p \<mapsto> JObj []]"
      and u = example_location]
  have 3: "fst (isPluginValid ?valid [?p \<mapsto> JObj []] example_location) = Inr False"
    by blast
  from isPluginValid_truthy_entries [where files = Map.empty
      and cache = "[?p \<mapsto> valid_manifest]" and u = example_location]
  have 4: "isPluginValid Map.empty [?p \<mapsto> valid_manifest] example_location
     = (Inr False, [?p \<mapsto> valid_manifest])"
    by simp
  have "[?p \<mapsto> Manifest (JObj [])] (path example_location @ ''/package.json'') \<noteq> None \<and>
        loaded_document [?p \<mapsto> Manifest (JObj [])] Map.empty
           (path example_location @ ''/package.json'') = Some (JObj []) \<and>
        JObj [] \<noteq> JNull \<and> \<not> declares_contribution (JObj [])"
    by (simp add: p declares_contribution_def member_of_def loaded_document_def)
  with isPluginValid_truthy_entries [where files = "[?p \<mapsto> Manifest (JObj [])]"
      and cache = Map.empty and u = example_location]
  have 5: "fst (isPluginValid [?p \<mapsto> Manifest (JObj [])] Map.empty example_location)
     = Inr False"
    by blast
  from 1 2 3 4 5 show ?thesis by simp
qed


text \<open>
  C7. Whenever \<open>run\<close> on a \<open>NodeHostedPluginRunner\<close> resolves, the endpoint it returns is
  the URI of the readiness line with the registered post-processors applied one after the
  other, the first registered first. With processors appending \<open>/a\<close> and then \<open>/b\<close> the
  path ends in \<open>/a/b\<close>.
\<close>

theorem postprocessors_in_registration_order:
  assumes "run (NodeHostedPluginRunner ps) sc pluginUri p m w = (Resolved e, m', w')"
  shows "\<exists>g. readiness_uri (startup sc) = Some g \<and>
             e = Some (fold (\<lambda>uriPostProcessor u. uriPostProcessor u) ps (new_URI sc g))"
  using run_resolved [OF assms] by (auto simp: process_all_fold)

theorem postprocessors_in_registration_order_witness:
  "fst (run (NodeHostedPluginRunner [append_path ''/a'', append_path ''/b'']) example_script
          example_location None new_manager fresh_module)
     = Resolved (Some (example_endpoint\<lparr>path := ''/a/b''\<rparr>)) \<and>
   (\<exists>g. readiness_uri (startup example_script) = Some g \<and>
        Some (example_endpoint\<lparr>path := ''/a/b''\<rparr>) =
        Some (fold (\<lambda>uriPostProcessor u. uriPostProcessor u)
                [append_path ''/a'', append_path ''/b''] (new_URI example_script g)))"
proof -
  let ?run = "run (NodeHostedPluginRunner [append_path ''/a'', append_path ''/b'']) example_script
          example_location None new_manager fresh_module"
  have r: "fst ?run = Resolved (Some (example_endpoint\<lparr>path := ''/a/b''\<rparr>))"
    by (simp add: run_eval append_path_def example_endpoint_def)
  then have "?run = (Resolved (Some (example_endpoint\<lparr>path := ''/a/b''\<rparr>)),
                     fst (snd ?run), snd (snd ?run))"
    by (simp add: prod_eq_iff)
  from postprocessors_in_registration_order [OF this] r show ?thesis by simp
qed

text \<open>
  C8. On a supervisor for which \<open>isRunning()\<close> is true, \<open>run\<close> fails with the
  already-running error and leaves the manager and the module as they were: nothing is added
  to the log of platform calls, so no second child process is spawned.
\<close>

theorem run_while_running_fails:
  "isRunning m \<Longrightarrow> run r sc pluginUri p m w = (Rejected AlreadyRunning, m, w)"
  by (simp add: run_def isRunning_def)

theorem run_while_running_fails_witness:
  "isRunning started_manager \<and>
   run ElectronNodeHostedPluginRunner example_script other_location None
       started_manager started_module
     = (Rejected AlreadyRunning, started_manager, started_module)"
proof -
  have h: "isRunning started_manager" by (simp add: isRunning_def started_manager_def)
  from h run_while_running_fails [OF h] show ?thesis by simp
qed





text \<open>
  C10, as stated: the values a call of \<open>run\<close> writes into the shared environment are
  inherited by every later launch. Two launches from one module: the first (for
  \<open>/home/user/plugin\<close>) times out, the second is for \<open>/home/user/other\<close>. The child of the
  second launch gets the second path as \<open>HOSTED_PLUGIN\<close>, not the value the first call wrote.
\<close>

theorem shared_env_counterexample:
  "first_launch = (Rejected Timeout, timed_out_manager, timed_out_module) \<and>
   map_of (store timed_out_module (env (PROCESS_OPTIONS timed_out_module))) ''HOSTED_PLUGIN''
     = Some ''/home/user/plugin'' \<and>
   map (\<lambda>e. map_of e ''HOSTED_PLUGIN'') (spawn_envs (effects (snd (snd second_launch))))
     = [Some ''/home/user/plugin'', Some ''/home/user/other'']"
  by (simp add: first_launch_eval second_launch_eval timed_out_module_def)

text \<open>
  C10, amended. The environment of a launch is not isolated: the options copy made by
  \<open>run\<close> is shallow, so its \<open>env\<close> is the one environment object of \<open>PROCESS_OPTIONS\<close>.
  For every call of \<open>run\<close> with a file-scheme location on a manager that is not running,
  whatever the outcome of the call: \<open>PROCESS_OPTIONS\<close> still refers to the same object, that
  object holds the \<open>HOSTED_PLUGIN\<close> and \<open>THEIA_PLUGINS\<close> values the call wrote and all its
  other entries as before, no other object has changed, and a child spawned by the call
  got the options of \<open>PROCESS_OPTIONS\<close> and the content of that object. A later launch
  therefore starts from the map the earlier ones left, keeps its other entries, and
  overwrites the two values with its own before it spawns.
\<close>

theorem shared_env_persists:
  assumes "\<not> isRunning m" and "scheme pluginUri = ''file''"
    and "run r sc pluginUri p m w = (res, m', w')"
  shows "PROCESS_OPTIONS w' = PROCESS_OPTIONS w \<and>
         map_of (store w' (env (PROCESS_OPTIONS w))) ''HOSTED_PLUGIN'' = Some (path pluginUri) \<and>
         map_of (store w' (env (PROCESS_OPTIONS w))) ''THEIA_PLUGINS'' = Some [] \<and>
         (\<forall>k. k \<noteq> ''HOSTED_PLUGIN'' \<and> k \<noteq> ''THEIA_PLUGINS'' \<longrightarrow>
              map_of (store w' (env (PROCESS_OPTIONS w))) k = map_of (store w (env (PROCESS_OPTIONS w))) k) \<and>
         (\<forall>a. a \<noteq> env (PROCESS_OPTIONS w) \<longrightarrow> store w' a = store w a) \<and>
         (\<forall>cmd args opts e.
              Spawn cmd args opts e \<in> set (drop (length (effects w)) (effects w')) \<longrightarrow>
              opts = PROCESS_OPTIONS w \<and> e = store w' (env (PROCESS_OPTIONS w)))"
proof -
  from assms(1) have nr: "\<not> isInstanceRunnig m" by (simp add: isRunning_def)
  from run_file_summary [OF nr assms(2,3)]
  obtain xs where s: "PROCESS_OPTIONS w' = PROCESS_OPTIONS w" "store w' = store (written pluginUri w)"
     "effects w' = effects w @ xs"
     "\<forall>x \<in> set xs. is_spawn x \<longrightarrow>
        (\<exists>args. x = Spawn ''yarn'' args (PROCESS_OPTIONS w) (store w' (env (PROCESS_OPTIONS w))))"
    by auto
  have "\<forall>cmd args opts e.
              Spawn cmd args opts e \<in> set (drop (length (effects w)) (effects w')) \<longrightarrow>
              opts = PROCESS_OPTIONS w \<and> e = store w' (env (PROCESS_OPTIONS w))"
  proof (intro allI impI)
    fix cmd args opts e
    assume "Spawn cmd args opts e \<in> set (drop (length (effects w)) (effects w'))"
    with s(3) have "Spawn cmd args opts e \<in> set xs" by simp
    with s(4) show "opts = PROCESS_OPTIONS w \<and> e = store w' (env (PROCESS_OPTIONS w))"
      by fastforce
  qed
  moreover have "map_of (store w' (env (PROCESS_OPTIONS w))) ''HOSTED_PLUGIN'' = Some (path pluginUri)"
    "map_of (store w' (env (PROCESS_OPTIONS w))) ''THEIA_PLUGINS'' = Some []"
    "\<forall>k. k \<noteq> ''HOSTED_PLUGIN'' \<and> k \<noteq> ''THEIA_PLUGINS'' \<longrightarrow>
              map_of (store w' (env (PROCESS_OPTIONS w))) k = map_of (store w (env (PROCESS_OPTIONS w))) k"
    "\<forall>a. a \<noteq> env (PROCESS_OPTIONS w) \<longrightarrow> store w' a = store w a"
    using s(2) by (simp_all add: launch_env_def update_conv')
  ultimately show ?thesis using s(1) by blast
qed

theorem shared_env_persists_witness:
  "\<not> isRunning timed_out_manager \<and> scheme other_location = ''file'' \<and>
   PROCESS_OPTIONS (snd (snd second_launch)) = PROCESS_OPTIONS timed_out_module \<and>
   map_of (store (snd (snd second_launch)) 1) ''HOSTED_PLUGIN'' = Some ''/home/user/other'' \<and>
   map_of (store (snd (snd second_launch)) 1) ''THEIA_PLUGINS'' = Some [] \<and>
   map_of (store (snd (snd second_launch)) 1) ''HOME'' = Some ''/root'' \<and>
   store (snd (snd second_launch)) 0 = example_process_env \<and>
   spawn_envs (drop (length (effects timed_out_module)) (effects (snd (snd second_launch))))
     = [store (snd (snd second_launch)) 1]"
proof -
  let ?w = "snd (snd second_launch)"
  have nr: "\<not> isRunning timed_out_manager" by (simp add: isRunning_def timed_out_manager_def)
  have f: "scheme other_location = ''file''" by (simp add: other_location_def)
  have r: "run ElectronNodeHostedPluginRunner example_script other_location (Some (Num 8080))
             timed_out_manager timed_out_module = (fst second_launch, fst (snd second_launch), ?w)"
    by (simp add: second_launch_def)
  have a: "env (PROCESS_OPTIONS timed_out_module) = 1" by (simp add: timed_out_module_def)
  note t = shared_env_persists [OF nr f r, unfolded a]
  have sp: "spawn_envs (drop (length (effects timed_out_module)) (effects ?w))
              = [[(''HOME'', ''/root''), (''HOSTED_PLUGIN'', ''/home/user/other''), (''THEIA_PLUGINS'', [])]]"
    by (simp add: second_launch_def run_eval timed_out_manager_def timed_out_module_def)
  have st: "store ?w 1 = [(''HOME'', ''/root''), (''HOSTED_PLUGIN'', ''/home/user/other''), (''THEIA_PLUGINS'', [])]"
    by (simp add: second_launch_def run_eval timed_out_manager_def timed_out_module_def)
  from t have 1: "PROCESS_OPTIONS ?w = PROCESS_OPTIONS timed_out_module"
    "map_of (store ?w 1) ''HOSTED_PLUGIN'' = Some (path other_location)"
    "map_of (store ?w 1) ''THEIA_PLUGINS'' = Some []"
    by blast+
  from t have "map_of (store ?w 1) ''HOME'' = map_of (store timed_out_module 1) ''HOME''"
    by simp
  then have 2: "map_of (store ?w 1) ''HOME'' = Some ''/root''"
    by (simp add: timed_out_module_def)
  from t have "store ?w 0 = store timed_out_module 0" by simp
  then have 3: "store ?w 0 = example_process_env" by (simp add: timed_out_module_def)
  from nr f 1 2 3 sp st show ?thesis by (simp add: other_location_def)
qed

end
